theory Spec2Isabelle
  imports Complex_Main
begin

section \<open>Strings\<close>

text \<open>
  The service works on JavaScript strings. They are modelled as \<^typ>\<open>string\<close>: a text is
  the list of its bytes, a character outside ASCII being the bytes of its UTF-8 encoding.
  Only the ASCII letters have case, and white space is the ASCII white space
  (tab, line feed, vertical tab, form feed, carriage return, space).
\<close>

definition toLowerCase_char :: "char \<Rightarrow> char" where
  "toLowerCase_char c =
     (case map_of (zip ''ABCDEFGHIJKLMNOPQRSTUVWXYZ'' ''abcdefghijklmnopqrstuvwxyz'') c of
        Some d \<Rightarrow> d
      | None \<Rightarrow> c)"

definition toLowerCase :: "string \<Rightarrow> string" where
  "toLowerCase s = map toLowerCase_char s"

fun startsWith :: "string \<Rightarrow> string \<Rightarrow> bool" where
  "startsWith s [] = True"
| "startsWith [] (p # ps) = False"
| "startsWith (c # cs) (p # ps) = (c = p \<and> startsWith cs ps)"

definition endsWith :: "string \<Rightarrow> string \<Rightarrow> bool" where
  "endsWith s p = startsWith (rev s) (rev p)"

text \<open>\<open>s.includes(sub)\<close>: \<open>sub\<close> occurs in \<open>s\<close> at some position.\<close>

fun str_includes :: "string \<Rightarrow> string \<Rightarrow> bool" where
  "str_includes [] sub = (sub = [])"
| "str_includes (c # cs) sub = (startsWith (c # cs) sub \<or> str_includes cs sub)"

definition isSpace :: "char \<Rightarrow> bool" where
  "isSpace c = (c \<in> set [CHR 0x09, CHR 0x0A, CHR 0x0B, CHR 0x0C, CHR 0x0D, CHR '' ''])"

definition trim :: "string \<Rightarrow> string" where
  "trim s = rev (dropWhile isSpace (rev (dropWhile isSpace s)))"

text \<open>\<open>s.substring(n)\<close> and \<open>s.substring(0, n)\<close> for an index within the string.\<close>

definition substring_from :: "string \<Rightarrow> nat \<Rightarrow> string" where
  "substring_from s n = drop n s"

definition substring_to :: "string \<Rightarrow> nat \<Rightarrow> string" where
  "substring_to s n = take n s"

text \<open>
  \<open>s.split(sep)\<close> for a separator that is not empty: the pieces between the occurrences
  of \<open>sep\<close>, found from the left. The first argument holds the piece read so far.
\<close>

fun split_acc :: "string \<Rightarrow> string \<Rightarrow> string \<Rightarrow> string list" where
  "split_acc acc sep [] = [rev acc]"
| "split_acc acc sep (c # cs) =
     (if startsWith (c # cs) sep \<and> sep \<noteq> []
      then rev acc # split_acc [] sep (drop (length sep) (c # cs))
      else split_acc (c # acc) sep cs)"

definition str_split :: "string \<Rightarrow> string \<Rightarrow> string list" where
  "str_split s sep = split_acc [] sep s"

text \<open>
  A regular expression \<open>/k1|k2|...|kn/i\<close> whose alternatives are lower-case ASCII words,
  used with \<open>test\<close>: some alternative occurs in the text, letters compared without case.
\<close>

definition regex_test_i :: "string list \<Rightarrow> string \<Rightarrow> bool" where
  "regex_test_i alts s = list_ex (str_includes (toLowerCase s)) alts"

text \<open>The rupee sign U+20B9, as its three UTF-8 bytes.\<close>

definition rupee :: string where
  "rupee = [CHR 0xE2, CHR 0x82, CHR 0xB9]"

text \<open>
  \<open>x || d\<close> for a string \<open>x\<close> that may be \<open>undefined\<close>: the empty string and
  \<open>undefined\<close> are both falsy.
\<close>

definition or_default :: "string option \<Rightarrow> string \<Rightarrow> string" where
  "or_default x d = (case x of None \<Rightarrow> d | Some s \<Rightarrow> if s = [] then d else s)"

text \<open>\<open>xs[i]\<close>, which is \<open>undefined\<close> beyond the end of the array.\<close>

definition nth_opt :: "'a list \<Rightarrow> nat \<Rightarrow> 'a option" where
  "nth_opt xs i = (if i < length xs then Some (xs ! i) else None)"

text \<open>
  The regular expression \<open>"([^"]+)"\<close> matched at the start of a text, and the same after
  \<open>\s*\<close>; the result is the group. Both \<open>\s*\<close> and \<open>[^"]+\<close> are followed by a character
  they cannot match, so the greedy match is the only one.
\<close>

definition quoted_here :: "string \<Rightarrow> string option" where
  "quoted_here s =
     (case s of
        [] \<Rightarrow> None
      | c # cs \<Rightarrow>
          if c = CHR 0x22 \<and> takeWhile (\<lambda>x. x \<noteq> CHR 0x22) cs \<noteq> []
             \<and> dropWhile (\<lambda>x. x \<noteq> CHR 0x22) cs \<noteq> []
          then Some (takeWhile (\<lambda>x. x \<noteq> CHR 0x22) cs)
          else None)"

definition quoted_after_spaces :: "string \<Rightarrow> string option" where
  "quoted_after_spaces s = quoted_here (dropWhile isSpace s)"

text \<open>
  \<open>s.match(/(?:a1|...|an)\s*"([^"]+)"/)\<close>: the group of the leftmost match, the
  alternatives tried in order at each position. With \<open>ci\<close> the alternatives (lower-case
  words) are compared without case, as under the flag \<open>i\<close>.
\<close>

fun first_some :: "'a option list \<Rightarrow> 'a option" where
  "first_some [] = None"
| "first_some (None # xs) = first_some xs"
| "first_some (Some x # xs) = Some x"

fun match_quoted_after :: "bool \<Rightarrow> string list \<Rightarrow> string \<Rightarrow> string option" where
  "match_quoted_after ci alts [] = None"
| "match_quoted_after ci alts (c # cs) =
     (case first_some
             (map (\<lambda>a. if startsWith (if ci then toLowerCase (c # cs) else c # cs) a
                       then quoted_after_spaces (drop (length a) (c # cs))
                       else None) alts) of
        Some g \<Rightarrow> Some g
      | None \<Rightarrow> match_quoted_after ci alts cs)"

text \<open>\<open>s.match(/"([^"]+)"/)\<close>: the group of the leftmost match.\<close>

fun match_quoted :: "string \<Rightarrow> string option" where
  "match_quoted [] = None"
| "match_quoted (c # cs) =
     (case quoted_here (c # cs) of Some g \<Rightarrow> Some g | None \<Rightarrow> match_quoted cs)"

text \<open>
  \<open>s.match(/a[\s\S]*b/)\<close> for two characters \<open>a\<close> and \<open>b\<close>: the match starts at the
  first \<open>a\<close> that has a \<open>b\<close> after it and, \<open>[\s\S]*\<close> being greedy, ends at the last \<open>b\<close>.
\<close>

definition upto_last :: "char \<Rightarrow> string \<Rightarrow> string" where
  "upto_last b s = rev (dropWhile (\<lambda>x. x \<noteq> b) (rev s))"

fun regex_span :: "char \<Rightarrow> char \<Rightarrow> string \<Rightarrow> string option" where
  "regex_span a b [] = None"
| "regex_span a b (c # cs) =
     (if c = a \<and> b \<in> set cs then Some (c # upto_last b cs) else regex_span a b cs)"

text \<open>
  \<open>s.match(/(\{[\s\S]*\}|\[[\s\S]*\])/)\<close>: at each position the object alternative is
  tried before the array alternative; the leftmost position with a match wins.
\<close>

fun regex_json_like :: "string \<Rightarrow> string option" where
  "regex_json_like [] = None"
| "regex_json_like (c # cs) =
     (if c = CHR ''{'' \<and> CHR ''}'' \<in> set cs then Some (c # upto_last CHR ''}'' cs)
      else if c = CHR ''['' \<and> CHR '']'' \<in> set cs then Some (c # upto_last CHR '']'' cs)
      else regex_json_like cs)"

text \<open>The decimal digits of a natural number, as \<open>String(n)\<close> prints them.\<close>

function show_nat :: "nat \<Rightarrow> string" where
  "show_nat n =
     (if n < 10 then [''0123456789'' ! n]
      else show_nat (n div 10) @ [''0123456789'' ! (n mod 10)])"
  by pat_completeness auto
termination
  by (relation "measure id") auto

declare show_nat.simps [simp del]

section \<open>JSON values and \<open>JSON.parse\<close>\<close>

text \<open>
  A JavaScript value that JSON can express. A number is its exact value (the rounding to
  a double is not modelled); an object is the list of its properties in the order they
  were first written.
\<close>

datatype json =
    JNull
  | JBool bool
  | JNum rat
  | JStr string
  | JArr "json list"
  | JObj "(string \<times> json) list"

text \<open>
  A value that may be \<open>undefined\<close> is a \<^typ>\<open>json option\<close>. \<open>truthy\<close> is the
  conversion to a boolean that \<open>if (x)\<close>, \<open>!x\<close> and \<open>x || y\<close> apply.
\<close>

fun truthy :: "json option \<Rightarrow> bool" where
  "truthy None = False"
| "truthy (Some JNull) = False"
| "truthy (Some (JBool b)) = b"
| "truthy (Some (JNum q)) = (q \<noteq> 0)"
| "truthy (Some (JStr s)) = (s \<noteq> [])"
| "truthy (Some (JArr xs)) = True"
| "truthy (Some (JObj kvs)) = True"

text \<open>What the service throws and catches: an \<open>Error\<close> with its \<open>name\<close> and \<open>message\<close>.\<close>

datatype js_error = JsError (err_name: string) (err_message: string)

definition TypeError :: js_error where
  "TypeError = JsError ''TypeError'' ''Cannot read properties of undefined''"

text \<open>
  \<open>x.k\<close> and \<open>x[0]\<close>: reading a property of \<open>null\<close> or \<open>undefined\<close> throws a
  \<open>TypeError\<close>; a property a value does not have is \<open>undefined\<close>. (None of the
  property names the service reads is a property of a prototype.)
\<close>

fun get_prop :: "json option \<Rightarrow> string \<Rightarrow> js_error + json option" where
  "get_prop None k = Inl TypeError"
| "get_prop (Some JNull) k = Inl TypeError"
| "get_prop (Some (JObj kvs)) k = Inr (map_of kvs k)"
| "get_prop (Some v) k = Inr None"

fun get_first :: "json option \<Rightarrow> js_error + json option" where
  "get_first None = Inl TypeError"
| "get_first (Some JNull) = Inl TypeError"
| "get_first (Some (JArr xs)) = Inr (nth_opt xs 0)"
| "get_first (Some (JObj kvs)) = Inr (map_of kvs ''0'')"
| "get_first (Some (JStr s)) = Inr (map_option (\<lambda>c. JStr [c]) (nth_opt s 0))"
| "get_first (Some v) = Inr None"

subsection \<open>The parser\<close>

definition isJsonSpace :: "char \<Rightarrow> bool" where
  "isJsonSpace c = (c \<in> set [CHR 0x09, CHR 0x0A, CHR 0x0D, CHR '' ''])"

definition skip_ws :: "string \<Rightarrow> string" where
  "skip_ws s = dropWhile isJsonSpace s"

definition isDigit :: "char \<Rightarrow> bool" where
  "isDigit c = (c \<in> set ''0123456789'')"

definition digit_value :: "char \<Rightarrow> nat" where
  "digit_value c =
     (case map_of (zip ''0123456789abcdefABCDEF''
                       [0, 1, 2, 3, 4, 5, 6, 7, 8, 9, 10, 11, 12, 13, 14, 15, 10, 11, 12, 13, 14, 15]) c of
        Some d \<Rightarrow> d
      | None \<Rightarrow> 0)"

definition isHexDigit :: "char \<Rightarrow> bool" where
  "isHexDigit c = (c \<in> set ''0123456789abcdefABCDEF'')"

definition digits_value :: "nat \<Rightarrow> string \<Rightarrow> nat" where
  "digits_value base ds = foldl (\<lambda>a c. base * a + digit_value c) 0 ds"

text \<open>The number grammar: \<open>-? (0 | [1-9][0-9]*) (. [0-9]+)? ([eE] [+-]? [0-9]+)?\<close>.\<close>

definition parse_int_part :: "string \<Rightarrow> (string \<times> string) option" where
  "parse_int_part s =
     (case s of
        [] \<Rightarrow> None
      | c # cs \<Rightarrow>
          if c = CHR ''0'' then Some ([c], cs)
          else if isDigit c then Some (takeWhile isDigit (c # cs), dropWhile isDigit (c # cs))
          else None)"

definition parse_frac_part :: "string \<Rightarrow> (string \<times> string) option" where
  "parse_frac_part s =
     (case s of
        [] \<Rightarrow> Some ([], s)
      | c # cs \<Rightarrow>
          if c = CHR ''.''
          then (if takeWhile isDigit cs = [] then None
                else Some (takeWhile isDigit cs, dropWhile isDigit cs))
          else Some ([], s))"

definition parse_exp_part :: "string \<Rightarrow> (int \<times> string) option" where
  "parse_exp_part s =
     (case s of
        [] \<Rightarrow> Some (0, s)
      | c # cs \<Rightarrow>
          if c = CHR ''e'' \<or> c = CHR ''E''
          then (let neg = (cs \<noteq> [] \<and> hd cs = CHR ''-'');
                    ds = (if cs \<noteq> [] \<and> (hd cs = CHR ''-'' \<or> hd cs = CHR ''+'') then tl cs else cs)
                in if takeWhile isDigit ds = [] then None
                   else Some ((if neg then - 1 else 1) * int (digits_value 10 (takeWhile isDigit ds)),
                              dropWhile isDigit ds))
          else Some (0, s))"

definition parse_number :: "string \<Rightarrow> (rat \<times> string) option" where
  "parse_number s =
     (let neg = (s \<noteq> [] \<and> hd s = CHR ''-'');
          s1 = (if neg then tl s else s)
      in case parse_int_part s1 of
           None \<Rightarrow> None
         | Some (ds, s2) \<Rightarrow>
             (case parse_frac_part s2 of
                None \<Rightarrow> None
              | Some (fs, s3) \<Rightarrow>
                  (case parse_exp_part s3 of
                     None \<Rightarrow> None
                   | Some (ex, s4) \<Rightarrow>
                       Some ((if neg then - 1 else 1)
                               * (of_nat (digits_value 10 (ds @ fs)) / 10 ^ length fs)
                               * (if 0 \<le> ex then 10 ^ nat ex else 1 / 10 ^ nat (- ex)),
                             s4))))"

text \<open>
  The characters of a string literal, after its opening quote: a byte of the text, or the
  UTF-16 code unit of a \<open>\u\<close> escape. Control characters are not allowed unescaped.
\<close>

datatype str_item = Byte char | Unit nat

definition simple_escape :: "char \<Rightarrow> char option" where
  "simple_escape c =
     map_of [(CHR 0x22, CHR 0x22), (CHR 0x5C, CHR 0x5C), (CHR ''/'', CHR ''/''),
             (CHR ''b'', CHR 0x08), (CHR ''f'', CHR 0x0C), (CHR ''n'', CHR 0x0A),
             (CHR ''r'', CHR 0x0D), (CHR ''t'', CHR 0x09)] c"

fun parse_chars :: "str_item list \<Rightarrow> string \<Rightarrow> (str_item list \<times> string) option" where
  "parse_chars acc [] = None"
| "parse_chars acc (c # cs) =
     (if c = CHR 0x22 then Some (rev acc, cs)
      else if c = CHR 0x5C then
        (case cs of
           [] \<Rightarrow> None
         | e # r \<Rightarrow>
             if e = CHR ''u'' then
               (case r of
                  h1 # h2 # h3 # h4 # r' \<Rightarrow>
                    if isHexDigit h1 \<and> isHexDigit h2 \<and> isHexDigit h3 \<and> isHexDigit h4
                    then parse_chars (Unit (digits_value 16 [h1, h2, h3, h4]) # acc) r'
                    else None
                | _ \<Rightarrow> None)
             else
               (case simple_escape e of
                  Some x \<Rightarrow> parse_chars (Byte x # acc) r
                | None \<Rightarrow> None))
      else if (of_char c :: nat) < 32 then None
      else parse_chars (Byte c # acc) cs)"

text \<open>The UTF-8 bytes of a code point; a surrogate pair is one code point.\<close>

definition utf8 :: "nat \<Rightarrow> string" where
  "utf8 n =
     (if n < 0x80 then [char_of n]
      else if n < 0x800 then [char_of (0xC0 + n div 64), char_of (0x80 + n mod 64)]
      else if n < 0x10000 then
        [char_of (0xE0 + n div 4096), char_of (0x80 + n div 64 mod 64), char_of (0x80 + n mod 64)]
      else
        [char_of (0xF0 + n div 262144), char_of (0x80 + n div 4096 mod 64),
         char_of (0x80 + n div 64 mod 64), char_of (0x80 + n mod 64)])"

fun bytes_of_items :: "str_item list \<Rightarrow> string" where
  "bytes_of_items [] = []"
| "bytes_of_items (Byte c # xs) = c # bytes_of_items xs"
| "bytes_of_items (Unit hi # Unit lo # xs) =
     (if 0xD800 \<le> hi \<and> hi < 0xDC00 \<and> 0xDC00 \<le> lo \<and> lo < 0xE000
      then utf8 (0x10000 + (hi - 0xD800) * 1024 + (lo - 0xDC00)) @ bytes_of_items xs
      else utf8 hi @ bytes_of_items (Unit lo # xs))"
| "bytes_of_items (Unit n # xs) = utf8 n @ bytes_of_items xs"

definition parse_string :: "string \<Rightarrow> (string \<times> string) option" where
  "parse_string s = map_option (\<lambda>(items, r). (bytes_of_items items, r)) (parse_chars [] s)"

text \<open>A repeated key keeps its first place and takes the last value.\<close>

fun obj_put :: "string \<Rightarrow> json \<Rightarrow> (string \<times> json) list \<Rightarrow> (string \<times> json) list" where
  "obj_put k v [] = [(k, v)]"
| "obj_put k v ((k', v') # kvs) =
     (if k = k' then (k, v) # kvs else (k', v') # obj_put k v kvs)"

text \<open>
  The value grammar, by recursive descent. The first argument bounds the number of nested
  calls; \<open>JSON_parse\<close> starts it above what a text of that length can need.
\<close>

fun parse_value :: "nat \<Rightarrow> string \<Rightarrow> (json \<times> string) option"
  and parse_elements :: "nat \<Rightarrow> json list \<Rightarrow> string \<Rightarrow> (json \<times> string) option"
  and parse_members :: "nat \<Rightarrow> (string \<times> json) list \<Rightarrow> string \<Rightarrow> (json \<times> string) option"
where
  "parse_value 0 s = None"
| "parse_value (Suc n) s =
     (case skip_ws s of
        [] \<Rightarrow> None
      | c # cs \<Rightarrow>
          if c = CHR ''{'' then
            (case skip_ws cs of
               [] \<Rightarrow> None
             | d # r \<Rightarrow> if d = CHR ''}'' then Some (JObj [], r) else parse_members n [] cs)
          else if c = CHR ''['' then
            (case skip_ws cs of
               [] \<Rightarrow> None
             | d # r \<Rightarrow> if d = CHR '']'' then Some (JArr [], r) else parse_elements n [] cs)
          else if c = CHR 0x22 then
            map_option (\<lambda>(str, r). (JStr str, r)) (parse_string cs)
          else if startsWith (c # cs) ''true'' then Some (JBool True, drop 4 (c # cs))
          else if startsWith (c # cs) ''false'' then Some (JBool False, drop 5 (c # cs))
          else if startsWith (c # cs) ''null'' then Some (JNull, drop 4 (c # cs))
          else map_option (\<lambda>(q, r). (JNum q, r)) (parse_number (c # cs)))"
| "parse_elements 0 acc s = None"
| "parse_elements (Suc n) acc s =
     (case parse_value n s of
        None \<Rightarrow> None
      | Some (v, r) \<Rightarrow>
          (case skip_ws r of
             [] \<Rightarrow> None
           | d # r' \<Rightarrow>
               if d = CHR '','' then parse_elements n (v # acc) r'
               else if d = CHR '']'' then Some (JArr (rev (v # acc)), r')
               else None))"
| "parse_members 0 acc s = None"
| "parse_members (Suc n) acc s =
     (case skip_ws s of
        [] \<Rightarrow> None
      | q # r \<Rightarrow>
          if q \<noteq> CHR 0x22 then None
          else
            (case parse_string r of
               None \<Rightarrow> None
             | Some (k, r1) \<Rightarrow>
                 (case skip_ws r1 of
                    [] \<Rightarrow> None
                  | col # r2 \<Rightarrow>
                      if col \<noteq> CHR '':'' then None
                      else
                        (case parse_value n r2 of
                           None \<Rightarrow> None
                         | Some (v, r3) \<Rightarrow>
                             (case skip_ws r3 of
                                [] \<Rightarrow> None
                              | d # r4 \<Rightarrow>
                                  if d = CHR '','' then parse_members n (obj_put k v acc) r4
                                  else if d = CHR ''}'' then Some (JObj (obj_put k v acc), r4)
                                  else None)))))"

text \<open>\<open>JSON.parse(text)\<close>: \<open>None\<close> where it throws a \<open>SyntaxError\<close>.\<close>

definition JSON_parse :: "string \<Rightarrow> json option" where
  "JSON_parse s =
     (case parse_value (2 * length s + 2) s of
        None \<Rightarrow> None
      | Some (v, r) \<Rightarrow> if skip_ws r = [] then Some v else None)"

section \<open>Data model\<close>

text \<open>
  The entities the operations return. A \<open>number\<close> is a rational, as in \<^typ>\<open>json\<close>. The
  fields \<open>category\<close> and \<open>confidence\<close> of a recommendation are \<open>rec_category\<close> and
  \<open>rec_confidence\<close> here, the names being taken by \<open>ProductCategory\<close>.
\<close>

record ProductCategory =
  category :: string
  confidence :: rat
  subcategory :: "string option"

datatype trend = increasing | decreasing | stable

record MarketAnalysis =
  priceRange :: string
  marketTrend :: trend
  bestTimeToBuy :: string
  pricePrediction :: string
  marketInsights :: "string list"

record ProductRecommendation =
  productName :: string
  reason :: string
  rec_category :: string
  estimatedPrice :: string
  rec_confidence :: rat

record SmartSearchResult =
  enhancedQuery :: string
  categories :: "ProductCategory list"
  marketAnalysis :: MarketAnalysis
  recommendations :: "ProductRecommendation list"
  searchTips :: "string list"

text \<open>The same entities as the JavaScript objects the operations hand to their callers.\<close>

definition json_of_ProductCategory :: "ProductCategory \<Rightarrow> json" where
  "json_of_ProductCategory c =
     JObj ([(''category'', JStr (category c)), (''confidence'', JNum (confidence c))]
           @ (case subcategory c of None \<Rightarrow> [] | Some s \<Rightarrow> [(''subcategory'', JStr s)]))"

definition json_of_trend :: "trend \<Rightarrow> json" where
  "json_of_trend t =
     (case t of increasing \<Rightarrow> JStr ''increasing''
      | decreasing \<Rightarrow> JStr ''decreasing''
      | stable \<Rightarrow> JStr ''stable'')"

definition json_of_MarketAnalysis :: "MarketAnalysis \<Rightarrow> json" where
  "json_of_MarketAnalysis m =
     JObj [(''priceRange'', JStr (priceRange m)),
           (''marketTrend'', json_of_trend (marketTrend m)),
           (''bestTimeToBuy'', JStr (bestTimeToBuy m)),
           (''pricePrediction'', JStr (pricePrediction m)),
           (''marketInsights'', JArr (map JStr (marketInsights m)))]"

definition json_of_ProductRecommendation :: "ProductRecommendation \<Rightarrow> json" where
  "json_of_ProductRecommendation r =
     JObj [(''productName'', JStr (productName r)),
           (''reason'', JStr (reason r)),
           (''category'', JStr (rec_category r)),
           (''estimatedPrice'', JStr (estimatedPrice r)),
           (''confidence'', JNum (rec_confidence r))]"

definition json_of_SmartSearchResult :: "SmartSearchResult \<Rightarrow> json" where
  "json_of_SmartSearchResult r =
     JObj [(''enhancedQuery'', JStr (enhancedQuery r)),
           (''categories'', JArr (map json_of_ProductCategory (categories r))),
           (''marketAnalysis'', json_of_MarketAnalysis (marketAnalysis r)),
           (''recommendations'', JArr (map json_of_ProductRecommendation (recommendations r))),
           (''searchTips'', JArr (map JStr (searchTips r)))]"

section \<open>The surroundings of the service\<close>

text \<open>
  A response of \<open>fetch\<close>: its status, its status text and what \<open>response.json()\<close>
  resolves to (\<open>Inl\<close> the error it rejects with when the body is not JSON).
  \<open>response.ok\<close> is a status from 200 to 299.
\<close>

record response =
  status :: nat
  statusText :: string
  json_body :: "js_error + json"

definition ok :: "response \<Rightarrow> bool" where
  "ok r = (200 \<le> status r \<and> status r \<le> 299)"

text \<open>
  A call of \<open>fetch\<close> resolves to a response or rejects: with an error named
  \<open>AbortError\<close> when the cancellation signal fires while the call is in flight, with a
  \<open>TypeError\<close> (\<open>Failed to fetch\<close>) when the network fails.
\<close>

datatype fetch_outcome = Responds response | Rejects js_error

text \<open>
  What the service reads from its surroundings: the build flag \<open>import.meta.env.PROD\<close>,
  \<open>navigator.onLine\<close>, the month (0 to 11) and the day of the month of \<open>new Date()\<close>, the
  values \<open>Math.random()\<close> returns where the trend and the conversational reply are drawn
  (\<open>Math.random()\<close> is the fractional part of the field, so it lies in [0, 1) whatever
  the field holds), the outcome of the n-th call of \<open>fetch\<close> the service issues, whether
  the request's 30 second timer fires during the n-th backoff sleep, and what
  \<open>JSON.parse\<close> makes of a value that is not a string (it parses the value's conversion
  to a string, which for numbers is left to the platform).
\<close>

record env =
  envPROD :: bool
  onLine :: bool
  currentMonth :: nat
  currentDate :: nat
  rndTrend :: rat
  rndReply :: rat
  fetchOutcome :: "nat \<Rightarrow> fetch_outcome"
  timerFiresInSleep :: "nat \<Rightarrow> bool"
  parseNonString :: "json \<Rightarrow> json option"

text \<open>\<open>xs[Math.floor(Math.random() * xs.length)]\<close> for the drawn value \<open>r\<close>.\<close>

definition random_index :: "rat \<Rightarrow> nat \<Rightarrow> nat" where
  "random_index r n = nat \<lfloor>frac r * of_nat n\<rfloor>"

definition pick :: "rat \<Rightarrow> 'a list \<Rightarrow> 'a" where
  "pick r xs = xs ! random_index r (length xs)"

section \<open>Mock synthesis\<close>

definition mkCategory :: "string \<Rightarrow> rat \<Rightarrow> string \<Rightarrow> ProductCategory" where
  "mkCategory c k s = \<lparr>category = c, confidence = k, subcategory = Some s\<rparr>"

definition generateDynamicCategories :: "string \<Rightarrow> ProductCategory list" where
  "generateDynamicCategories query =
     (if regex_test_i [''phone'', ''smartphone'', ''mobile''] query then
        [mkCategory ''Electronics'' 0.95 ''Smartphones'',
         mkCategory ''Mobile Devices'' 0.88 ''Communication'']
      else if regex_test_i [''laptop'', ''computer'', ''pc''] query then
        [mkCategory ''Electronics'' 0.92 ''Computers'',
         mkCategory ''Technology'' 0.85 ''Computing'']
      else if regex_test_i [''tv'', ''television'', ''monitor''] query then
        [mkCategory ''Electronics'' 0.90 ''Display'',
         mkCategory ''Home Entertainment'' 0.82 ''Audio Visual'']
      else if regex_test_i [''headphone'', ''earphone'', ''speaker'', ''audio''] query then
        [mkCategory ''Electronics'' 0.88 ''Audio'',
         mkCategory ''Accessories'' 0.75 ''Audio Accessories'']
      else if regex_test_i [''watch'', ''smartwatch''] query then
        [mkCategory ''Electronics'' 0.85 ''Wearables'',
         mkCategory ''Fashion'' 0.70 ''Accessories'']
      else if regex_test_i [''shirt'', ''jeans'', ''dress'', ''clothing'', ''fashion''] query then
        [mkCategory ''Fashion'' 0.90 ''Apparel'',
         mkCategory ''Clothing'' 0.85 ''Casual Wear'']
      else if regex_test_i [''shoes'', ''sneaker'', ''footwear''] query then
        [mkCategory ''Fashion'' 0.88 ''Footwear'',
         mkCategory ''Sports'' 0.72 ''Athletic Wear'']
      else if regex_test_i [''book'', ''novel'', ''guide''] query then
        [mkCategory ''Books'' 0.92 ''Literature'',
         mkCategory ''Education'' 0.78 ''Learning Materials'']
      else if regex_test_i [''furniture'', ''home'', ''decor''] query then
        [mkCategory ''Home & Garden'' 0.87 ''Furniture'',
         mkCategory ''Lifestyle'' 0.75 ''Home Improvement'']
      else
        [mkCategory ''General'' 0.80 ''Consumer Goods'',
         mkCategory ''Retail'' 0.70 ''Miscellaneous''])"

text \<open>
  The classifier as a table, for comparison: the keyword groups in the order they are
  tried, each with its two entries, and the two default entries.
\<close>

definition category_groups :: "(string list \<times> ProductCategory list) list" where
  "category_groups =
     [([''phone'', ''smartphone'', ''mobile''],
       [mkCategory ''Electronics'' 0.95 ''Smartphones'',
        mkCategory ''Mobile Devices'' 0.88 ''Communication'']),
      ([''laptop'', ''computer'', ''pc''],
       [mkCategory ''Electronics'' 0.92 ''Computers'',
        mkCategory ''Technology'' 0.85 ''Computing'']),
      ([''tv'', ''television'', ''monitor''],
       [mkCategory ''Electronics'' 0.90 ''Display'',
        mkCategory ''Home Entertainment'' 0.82 ''Audio Visual'']),
      ([''headphone'', ''earphone'', ''speaker'', ''audio''],
       [mkCategory ''Electronics'' 0.88 ''Audio'',
        mkCategory ''Accessories'' 0.75 ''Audio Accessories'']),
      ([''watch'', ''smartwatch''],
       [mkCategory ''Electronics'' 0.85 ''Wearables'',
        mkCategory ''Fashion'' 0.70 ''Accessories'']),
      ([''shirt'', ''jeans'', ''dress'', ''clothing'', ''fashion''],
       [mkCategory ''Fashion'' 0.90 ''Apparel'',
        mkCategory ''Clothing'' 0.85 ''Casual Wear'']),
      ([''shoes'', ''sneaker'', ''footwear''],
       [mkCategory ''Fashion'' 0.88 ''Footwear'',
        mkCategory ''Sports'' 0.72 ''Athletic Wear'']),
      ([''book'', ''novel'', ''guide''],
       [mkCategory ''Books'' 0.92 ''Literature'',
        mkCategory ''Education'' 0.78 ''Learning Materials'']),
      ([''furniture'', ''home'', ''decor''],
       [mkCategory ''Home & Garden'' 0.87 ''Furniture'',
        mkCategory ''Lifestyle'' 0.75 ''Home Improvement''])]"

definition default_categories :: "ProductCategory list" where
  "default_categories =
     [mkCategory ''General'' 0.80 ''Consumer Goods'',
      mkCategory ''Retail'' 0.70 ''Miscellaneous'']"

definition classify_by_table :: "string \<Rightarrow> ProductCategory list" where
  "classify_by_table query =
     (case find (\<lambda>(keywords, entries). regex_test_i keywords query) category_groups of
        Some (keywords, entries) \<Rightarrow> entries
      | None \<Rightarrow> default_categories)"

definition confidence_in_range :: "ProductCategory \<Rightarrow> bool" where
  "confidence_in_range c = (0 < confidence c \<and> confidence c \<le> 1)"

text \<open>The flags of the market analysis.\<close>

definition isElectronics :: "string \<Rightarrow> bool" where
  "isElectronics query =
     regex_test_i [''phone'', ''laptop'', ''tablet'', ''tv'', ''camera'', ''headphone'', ''speaker'',
                   ''watch'', ''gaming'', ''console'', ''monitor''] query"

definition isApple :: "string \<Rightarrow> bool" where
  "isApple query = regex_test_i [''iphone'', ''ipad'', ''macbook'', ''apple'', ''airpods''] query"

definition isClothing :: "string \<Rightarrow> bool" where
  "isClothing query =
     regex_test_i [''shirt'', ''jeans'', ''dress'', ''shoes'', ''jacket'', ''clothing'', ''fashion''] query"

definition isHome :: "string \<Rightarrow> bool" where
  "isHome query = regex_test_i [''furniture'', ''kitchen'', ''home'', ''decor'', ''appliance''] query"

definition isBook :: "string \<Rightarrow> bool" where
  "isBook query = regex_test_i [''book'', ''novel'', ''textbook'', ''guide''] query"

definition isExpensive :: "string \<Rightarrow> bool" where
  "isExpensive query = regex_test_i [''pro'', ''max'', ''ultra'', ''premium'', ''flagship''] query"

definition dynamicPriceRange :: "string \<Rightarrow> string" where
  "dynamicPriceRange query =
     (if isApple query \<and> isExpensive query then rupee @ ''1,00,000 - '' @ rupee @ ''2,00,000''
      else if isElectronics query \<and> isExpensive query then rupee @ ''50,000 - '' @ rupee @ ''1,50,000''
      else if isElectronics query then rupee @ ''15,000 - '' @ rupee @ ''80,000''
      else if isClothing query then rupee @ ''500 - '' @ rupee @ ''5,000''
      else if isHome query then rupee @ ''2,000 - '' @ rupee @ ''50,000''
      else if isBook query then rupee @ ''200 - '' @ rupee @ ''2,000''
      else rupee @ ''1,000 - '' @ rupee @ ''25,000'')"

definition dynamicMarketTrend :: "env \<Rightarrow> string \<Rightarrow> trend" where
  "dynamicMarketTrend e query =
     (if isElectronics query then (if 8 \<le> currentMonth e then decreasing else stable)
      else if isClothing query then
        (if currentMonth e = 1 \<or> currentMonth e = 6 then decreasing else stable)
      else pick (rndTrend e) [increasing, decreasing, stable])"

text \<open>\<open>bestTimeToBuy\<close> and \<open>pricePrediction\<close>, which the source sets together.\<close>

definition dynamicTiming :: "env \<Rightarrow> string \<Rightarrow> string \<times> string" where
  "dynamicTiming e query =
     (let m = currentMonth e in
      if isElectronics query then
        (if 9 \<le> m \<and> m \<le> 11 then
           (''Buy now during festive season'', ''Prices at yearly low, good time to purchase'')
         else if 0 \<le> m \<and> m \<le> 2 then
           (''Wait 1-2 months for better deals'', ''Prices may drop 5-10% in coming months'')
         else if 6 \<le> m \<and> m \<le> 8 then
           (''Wait 3-4 weeks for festive sales'',
            ''Major discounts expected during upcoming festivals'')
         else
           (''Current prices are moderate, can buy now'',
            ''Prices expected to remain stable for next 2-3 months''))
      else if isClothing query then
        (if m = 0 \<or> m = 5 \<or> m = 6 then
           (''Buy now during seasonal sale'', ''End of season clearance offers available'')
         else if 9 \<le> m \<and> m \<le> 11 then
           (''Wait 4-6 weeks for year-end sales'',
            ''Better discounts expected during winter sales'')
         else
           (''Wait 2-3 weeks for next sale period'',
            ''Seasonal sales coming up with 20-40% discounts''))
      else if isHome query then
        (if 9 \<le> m \<and> m \<le> 11 then
           (''Buy now during festive home decor season'',
            ''Good deals available for home improvement'')
         else
           (''Wait 3-5 weeks for better offers'', ''Home appliance sales expected soon''))
      else if isBook query then
        (''Buy now, book prices are generally stable'',
         ''Book prices rarely fluctuate significantly'')
      else
        (let dayOfMonth = currentDate e in
         if dayOfMonth \<le> 10 then
           (''Wait 2-3 weeks for mid-month offers'',
            ''Better deals typically available mid-month'')
         else if dayOfMonth \<le> 20 then
           (''Good time to buy, prices are competitive'',
            ''Current pricing is reasonable for this category'')
         else
           (''Wait 1-2 weeks for month-end clearance'',
            ''Month-end sales may offer additional discounts'')))"

definition dynamicInsights :: "env \<Rightarrow> string \<Rightarrow> string list" where
  "dynamicInsights e query =
     (if isElectronics query then
        [''New model launches can trigger price drops on older versions'']
        @ (if 8 \<le> currentMonth e then [''Festive season brings the best electronics deals'']
           else [])
        @ [''Consider refurbished options for significant savings'']
      else if isClothing query then
        [''End-of-season sales offer maximum discounts'',
         ''Online exclusive deals often beat retail prices'']
      else if isHome query then
        [''Bulk purchases during sales can reduce per-unit cost'',
         ''Check for installation and warranty offers'']
      else
        [''Compare prices across multiple platforms'',
         ''Look for cashback and reward point offers''])"

definition generateDynamicMarketAnalysis :: "env \<Rightarrow> string \<Rightarrow> MarketAnalysis" where
  "generateDynamicMarketAnalysis e query =
     \<lparr>priceRange = dynamicPriceRange query,
      marketTrend = dynamicMarketTrend e query,
      bestTimeToBuy = fst (dynamicTiming e query),
      pricePrediction = snd (dynamicTiming e query),
      marketInsights = dynamicInsights e query\<rparr>"

definition generateDynamicSearchTips :: "string \<Rightarrow> string list" where
  "generateDynamicSearchTips query =
     [''Compare prices across multiple platforms'']
     @ (if regex_test_i [''phone'', ''laptop'', ''electronics''] query then
          [''Check for student discounts and educational offers'',
           ''Look for exchange offers with old devices'',
           ''Consider extended warranty options'',
           ''Check EMI options for expensive purchases'']
        else if regex_test_i [''clothing'', ''fashion''] query then
          [''Check size charts carefully before ordering'',
           ''Look for seasonal clearance sales'',
           ''Read fabric and care instructions'',
           ''Check return and exchange policies'']
        else if regex_test_i [''book''] query then
          [''Consider digital versions for instant access'',
           ''Check for used book options'',
           ''Look for bundle deals with related titles'']
        else
          [''Read customer reviews and ratings'',
           ''Check for cashback offers and reward points'',
           ''Look for bulk purchase discounts''])"

definition generateMockSmartSearchResult :: "env \<Rightarrow> string \<Rightarrow> SmartSearchResult" where
  "generateMockSmartSearchResult e query =
     (let marketAnalysis = generateDynamicMarketAnalysis e query;
          categories = generateDynamicCategories query
      in \<lparr>enhancedQuery = query @ '' best deals 2024'',
          categories = categories,
          marketAnalysis = marketAnalysis,
          recommendations =
            [\<lparr>productName = query @ '' Pro Max'',
              reason = ''Premium variant with better features'',
              rec_category = or_default (map_option category (nth_opt categories 0)) ''Electronics'',
              estimatedPrice =
                or_default (nth_opt (str_split (priceRange marketAnalysis) '' - '') 1)
                  (rupee @ ''1,20,000''),
              rec_confidence = 0.85\<rparr>,
             \<lparr>productName = query @ '' Lite'',
              reason = ''Budget-friendly alternative'',
              rec_category = or_default (map_option category (nth_opt categories 0)) ''Electronics'',
              estimatedPrice =
                or_default (nth_opt (str_split (priceRange marketAnalysis) '' - '') 0)
                  (rupee @ ''60,000''),
              rec_confidence = 0.78\<rparr>],
          searchTips = generateDynamicSearchTips query\<rparr>)"

definition generateMockCategories :: "ProductCategory list" where
  "generateMockCategories = generateDynamicCategories ''general product''"

definition generateMockMarketAnalysis :: "env \<Rightarrow> MarketAnalysis" where
  "generateMockMarketAnalysis e = generateDynamicMarketAnalysis e ''general product''"

definition generateMockRecommendations :: "ProductRecommendation list" where
  "generateMockRecommendations =
     [\<lparr>productName = ''iPhone 15 Pro Max'',
       reason = ''Premium flagship with advanced features'',
       rec_category = ''Electronics'',
       estimatedPrice = rupee @ ''1,50,000'',
       rec_confidence = 0.85\<rparr>,
      \<lparr>productName = ''Samsung Galaxy S24 Ultra'',
       reason = ''Best Android alternative with S Pen'',
       rec_category = ''Electronics'',
       estimatedPrice = rupee @ ''1,30,000'',
       rec_confidence = 0.78\<rparr>,
      \<lparr>productName = ''Google Pixel 8 Pro'',
       reason = ''Excellent camera and AI features'',
       rec_category = ''Electronics'',
       estimatedPrice = rupee @ ''1,10,000'',
       rec_confidence = 0.72\<rparr>]"

definition extractQueryFromPrompt :: "string \<Rightarrow> string" where
  "extractQueryFromPrompt prompt =
     (case match_quoted_after False [''Analyze this search query:''] prompt of
        Some q \<Rightarrow> q
      | None \<Rightarrow> ''general product'')"

definition extractUserQuestion :: "string \<Rightarrow> string" where
  "extractUserQuestion prompt =
     (case match_quoted_after True
             [''user asked:'', ''user says:'', ''user is asking:'', ''user question:''] prompt of
        Some q \<Rightarrow> q
      | None \<Rightarrow> (case match_quoted prompt of Some q \<Rightarrow> q | None \<Rightarrow> prompt))"

subsection \<open>The conversational replies\<close>

definition greetings :: "string list" where
  \<open>greetings =
     [''Hi there! '' @ [CHR 0xF0, CHR 0x9F, CHR 0x91, CHR 0x8B] @
      '' I'm excited to help you find the perfect products. What are you '' @
      ''shopping for today?'',
      ''Hello! Welcome to your personal shopping assistant. I can help you '' @
      ''discover great deals and make smart purchasing decisions. What interests '' @
      ''you?'',
      ''Hey! I'm here to make your shopping experience amazing. Whether '' @
      ''you're looking for the latest gadgets, fashion, or home essentials, '' @
      ''I've got you covered. What's on your shopping list?'',
      ''Hi! Thanks for chatting with me. I love helping people find exactly '' @
      ''what they need at the best prices. What can I help you discover '' @ ''today?'']\<close>

definition phoneResponses :: "string list" where
  \<open>phoneResponses =
     [''Smartphones are constantly evolving! Right now, I'd recommend looking '' @
      ''at the latest iPhone 15 series or Samsung Galaxy S24 lineup. Both '' @
      ''offer excellent cameras, performance, and battery life. The iPhone '' @
      ''15 Pro starts around '' @ rupee @ ''1,30,000, while Samsung's flagship is about '' @
      rupee @ ''1,00,000. Which features matter most to you - camera, battery, or '' @
      ''gaming performance?'',
      ''When it comes to phones, it really depends on your budget and needs. '' @
      ''For premium users, the iPhone 15 Pro Max offers the best camera '' @
      ''and ecosystem integration. If you're looking for great value, Samsung '' @
      ''Galaxy S24 Ultra gives you similar features at a lower price point. '' @
      ''Both are excellent choices with 5G support and long-term software '' @ ''updates.'',
      ''Phone shopping can be overwhelming with so many options! Let me '' @
      ''help you narrow it down. Are you upgrading from an older phone, '' @
      ''or is this your first smartphone? Also, what's your budget range? '' @
      ''This will help me give you more targeted recommendations.'']\<close>

definition laptopResponses :: "string list" where
  \<open>laptopResponses =
     [''Laptops are such a personal choice! For students and general use, '' @
      ''I'd recommend the MacBook Air M2 - it's lightweight, has amazing '' @
      ''battery life (up to 18 hours), and handles everything from browsing '' @
      ''to light video editing. It starts at around '' @ rupee @
      ''1,10,000. If you need more power for gaming or professional work, '' @
      ''consider a Windows laptop with dedicated graphics.'',
      ''The laptop market has something for everyone. If you're into the '' @
      ''Apple ecosystem and value design, the MacBook Pro M3 is incredible '' @
      ''for creative work. For gaming, look at ASUS ROG or MSI laptops. '' @
      ''And for everyday use, Lenovo ThinkPad or Dell XPS series offer great '' @
      ''reliability. What's your primary use case - work, gaming, or general '' @
      ''browsing?'',
      ''Great question about laptops! Current trends show that Apple Silicon '' @
      ''Macs are dominating for their efficiency, while gaming laptops from '' @
      ''ASUS and MSI offer incredible performance. For business users, ThinkPad '' @
      ''reliability is unmatched. Do you have a preference for Windows, '' @
      ''macOS, or are you open to both?'']\<close>

definition priceResponses :: "string list" where
  \<open>priceResponses =
     [''Smart shopping is all about timing! Prices typically drop during '' @
      ''major sales like Amazon Great Indian Festival, Flipkart Big Billion '' @
      ''Days, and festive seasons (October-December). Right now, you can '' @
      ''find up to 40% off on electronics. Also, check for bank offers, '' @
      ''exchange deals, and student discounts. What product are you interested '' @ ''in?'',
      ''The best deals happen during shopping festivals! We're currently '' @
      ''in a good period with various offers running. Electronics see the '' @
      ''biggest discounts (up to 50% off), followed by fashion and home '' @
      ''goods. Pro tip: Set price alerts on apps and wait for sales rather '' @
      ''than buying at full price. What's your budget for what you're looking '' @ ''for?'',
      ''Price comparison is crucial in India! Amazon, Flipkart, Croma, and '' @
      ''Vijay Sales often have competing offers. Don't forget about cashback '' @
      ''apps like CashKaro and bank credit card rewards. For big purchases, '' @
      ''EMI options can make expensive items more affordable. What category '' @
      ''interests you most?'']\<close>

definition audioResponses :: "string list" where
  \<open>audioResponses =
     [''Audio quality can make or break your experience! For wireless earbuds, '' @
      ''the Sony WF-1000XM5 offers incredible noise cancellation and sound '' @
      ''quality, though they're pricey at '' @ rupee @
      ''25,000+. If you're on a budget, OnePlus Buds Pro 2 gives great value '' @ ''at '' @
      rupee @ ''10,000. For over-ear headphones, Bose QuietComfort Ultra delivers '' @
      ''premium comfort and ANC.'',
      ''When it comes to audio gear, it depends on your usage. For commuting '' @
      ''and calls, I'd recommend true wireless earbuds with good ANC. For '' @
      ''music production or critical listening, over-ear headphones with '' @
      ''high-end drivers are better. Sony and Bose dominate the premium '' @
      ''segment, while brands like boAt and Noise offer affordable alternatives '' @
      ''with decent quality.'',
      ''Audio shopping is exciting! Current favorites include Sony WH-1000XM5 '' @
      ''for noise cancellation, Bose QuietComfort for comfort, and Apple '' @
      ''AirPods Pro for seamless iPhone integration. Don't forget to check '' @
      ''reviews for fit and battery life. What type of audio gear are you '' @
      ''looking for - earbuds, headphones, or speakers?'']\<close>

definition trendResponses :: "string list" where
  \<open>trendResponses =
     [''2024 is all about AI integration and sustainability! Smartphones '' @
      ''with advanced cameras, foldable displays, and AI features are trending. '' @
      ''In laptops, Apple Silicon Macs are dominating, while gaming laptops '' @
      ''with RTX 40-series GPUs are hot. Sustainable products and energy-efficient '' @
      ''appliances are also gaining popularity.'',
      ''Current shopping trends show strong demand for: 1) AI-powered devices '' @
      ''(smartphones, smart home gadgets), 2) Sustainable and eco-friendly '' @
      ''products, 3) Foldable phones and flexible displays, 4) High-refresh-rate '' @
      ''gaming monitors, 5) Wireless charging everywhere. What category '' @
      ''interests you most?'',
      ''The market is evolving rapidly! Right now, we're seeing a surge '' @
      ''in demand for electric vehicles, smart home automation, and AI assistants. '' @
      ''In consumer electronics, 8K TVs and high-end gaming PCs are popular. '' @
      ''Fashion trends lean towards sustainable materials and versatile '' @
      ''athleisure wear. What's catching your eye?'']\<close>

definition compareResponses :: "string list" where
  \<open>compareResponses =
     [''Great question for comparisons! To give you the best advice, I need '' @
      ''to know what you're comparing. For example: iPhone vs Samsung (iPhone '' @
      ''wins on ecosystem, Samsung on value), MacBook vs Windows laptops '' @
      ''(Mac for creative work, Windows for gaming), or specific models? '' @
      ''What products are you considering?'',
      ''Comparisons help make informed decisions! Generally, I compare based '' @
      ''on: performance, price, build quality, software support, and user '' @
      ''reviews. Apple products excel in ecosystem integration and long-term '' @
      ''support, while Android/Windows offer more customization. Premium '' @
      ''brands like Sony and Bose focus on quality, while budget brands '' @
      ''prioritize value. What are you comparing?'',
      ''Smart comparisons save money and buyer's remorse! Key factors include: '' @
      ''1) Performance vs price ratio, 2) Build quality and durability, '' @
      ''3) Software updates and support, 4) User reviews and ratings, 5) '' @
      ''Warranty and after-sales service. Indian market favorites include '' @
      ''Samsung for value, Apple for premium, and OnePlus for performance. '' @
      ''What would you like me to compare?'']\<close>

definition warrantyResponses :: "string list" where
  \<open>warrantyResponses =
     [''Warranty is crucial for peace of mind! Most electronics come with '' @
      ''1-2 year manufacturer warranty covering manufacturing defects. Extended '' @
      ''warranties are available for '' @ rupee @
      ''2,000-5,000 extra. Apple offers excellent support with authorized '' @
      ''service centers everywhere. Always buy from authorized dealers to '' @
      ''ensure valid warranty coverage.'',
      ''Good warranty coverage is essential! Premium brands like Apple, '' @
      ''Samsung, and Sony offer comprehensive support with dedicated service '' @
      ''centers. Budget brands typically provide 1-year warranty with good '' @
      ''coverage. Pro tip: Register your product online immediately after '' @
      ''purchase and keep all bills safe. What product are you considering?'',
      ''Service and support vary by brand. Apple leads with seamless ecosystem '' @
      ''support, Samsung has widespread service centers, while local brands '' @
      ''like Lava and Micromax offer good regional support. For high-value '' @
      ''purchases, consider extended warranty plans. Always check the warranty '' @
      ''card and terms carefully before buying.'']\<close>

definition adviceResponses :: "string list" where
  \<open>adviceResponses =
     [''Smart shopping tips: 1) Compare prices across platforms, 2) Read '' @
      ''recent reviews (last 3 months), 3) Check return policies, 4) Look '' @
      ''for cashback offers, 5) Consider future needs, not just current '' @
      ''ones. For big purchases, wait for sales or use credit card rewards. '' @
      ''What specific advice do you need?'',
      ''Here's my shopping wisdom: Always research thoroughly, never buy '' @
      ''impulsively on deals, check user reviews on multiple sites, and '' @
      ''consider the total cost of ownership (including accessories and '' @
      ''maintenance). For electronics, focus on reputable brands with good '' @
      ''service networks. What's your shopping challenge?'',
      ''Pro shopping advice: 1) Set a realistic budget first, 2) Make a '' @
      ''wishlist and compare options, 3) Read specifications carefully, '' @
      ''4) Check compatibility with existing devices, 5) Buy from authorized '' @
      ''sellers for warranty validity. For online shopping, use secure payment '' @
      ''methods and track your orders. How can I assist you today?'']\<close>

definition thankResponses :: "string list" where
  \<open>thankResponses =
     [''You're very welcome! I'm always here to help you make great shopping '' @
      ''decisions. Feel free to ask if you need more recommendations or '' @
      ''have any other questions. Happy shopping! '' @
      [CHR 0xF0, CHR 0x9F, CHR 0x9B, CHR 0x92],
      ''My pleasure! Shopping can be overwhelming, but I'm glad I could '' @
      ''help. Remember, I'm here whenever you need advice on products, deals, '' @
      ''or anything shopping-related. Have a great day!'',
      ''Glad I could help! Don't hesitate to reach out anytime you need '' @
      ''shopping assistance. Whether it's product research, price comparison, '' @
      ''or finding the best deals, I'm your go-to shopping companion. '' @
      [CHR 0xF0, CHR 0x9F, CHR 0x98, CHR 0x8A]]\<close>

definition defaultResponses :: "string list" where
  \<open>defaultResponses =
     [''That's an interesting question! I'd love to help you find the perfect '' @
      ''solution. Could you tell me more about what you're looking for? '' @
      ''For example, what's your budget, or what features are most important '' @
      ''to you?'',
      ''Great question! Shopping decisions are important, and I want to '' @
      ''make sure you get exactly what you need. To give you the best advice, '' @
      ''could you share a bit more about your requirements or preferences?'',
      ''I'm here to help you make smart shopping decisions! Whether you're '' @
      ''looking for the latest tech, fashion essentials, or home improvements, '' @
      ''I can provide recommendations and insights. What specific product '' @
      ''or category interests you?'',
      ''Thanks for asking! I can help you navigate the vast world of online '' @
      ''shopping in India. From finding the best deals to understanding '' @
      ''product specifications, I'm your shopping companion. What would '' @
      ''you like to explore today?'']\<close>

text \<open>\<open>words.some(w => question.includes(w))\<close>, as the chains of \<open>||\<close> in the source.\<close>

definition includes_any :: "string \<Rightarrow> string list \<Rightarrow> bool" where
  "includes_any s ws = list_ex (str_includes s) ws"

definition generateMockResponse :: "env \<Rightarrow> string \<Rightarrow> string" where
  "generateMockResponse e prompt =
     (let lowerQuestion = toLowerCase (extractUserQuestion prompt) in
      if includes_any lowerQuestion [''hello'', ''hi'', ''hey'', ''start'', ''begin'']
      then pick (rndReply e) greetings
      else if includes_any lowerQuestion [''phone'', ''smartphone'', ''mobile'']
      then pick (rndReply e) phoneResponses
      else if includes_any lowerQuestion [''laptop'', ''computer'', ''macbook'']
      then pick (rndReply e) laptopResponses
      else if includes_any lowerQuestion
                [''price'', ''cost'', ''expensive'', ''cheap'', ''budget'', ''deal'']
      then pick (rndReply e) priceResponses
      else if includes_any lowerQuestion
                [''audio'', ''headphone'', ''earphone'', ''speaker'', ''sound'']
      then pick (rndReply e) audioResponses
      else if includes_any lowerQuestion [''trend'', ''popular'', ''hot'', ''new'', ''latest'']
      then pick (rndReply e) trendResponses
      else if includes_any lowerQuestion
                [''compare'', ''vs'', ''versus'', ''better'', ''which is'']
      then pick (rndReply e) compareResponses
      else if includes_any lowerQuestion
                [''warranty'', ''support'', ''service'', ''repair'', ''guarantee'']
      then pick (rndReply e) warrantyResponses
      else if includes_any lowerQuestion [''advice'', ''tip'', ''how to'', ''guide'', ''help'']
      then pick (rndReply e) adviceResponses
      else if includes_any lowerQuestion [''thank'', ''thanks'', ''appreciate'']
      then pick (rndReply e) thankResponses
      else pick (rndReply e) defaultResponses)"

section \<open>Response recovery\<close>

text \<open>The marker of a fenced code block: three backticks.\<close>

definition fence :: string where
  "fence = [CHR 0x60, CHR 0x60, CHR 0x60]"

definition cleanGeminiResponse :: "string \<Rightarrow> string" where
  "cleanGeminiResponse response =
     (let cleaned = trim response;
          cleaned = (if startsWith cleaned (fence @ ''json'') then substring_from cleaned 7
                     else if startsWith cleaned fence then substring_from cleaned 3
                     else cleaned);
          cleaned = (if endsWith cleaned fence then substring_to cleaned (length cleaned - 3)
                     else cleaned);
          cleaned = trim cleaned;
          cleaned = (case regex_span CHR ''{'' CHR ''}'' cleaned of Some m \<Rightarrow> m | None \<Rightarrow> cleaned);
          cleaned = (case regex_span CHR ''['' CHR '']'' cleaned of Some m \<Rightarrow> m | None \<Rightarrow> cleaned)
      in cleaned)"

text \<open>The three attempts of \<open>safeJsonParse\<close>, each \<open>None\<close> where it throws.\<close>

definition recovery_stage1 :: "string \<Rightarrow> json option" where
  "recovery_stage1 response = JSON_parse response"

definition recovery_stage2 :: "string \<Rightarrow> json option" where
  "recovery_stage2 response = JSON_parse (cleanGeminiResponse response)"

definition recovery_stage3 :: "string \<Rightarrow> json option" where
  "recovery_stage3 response =
     (case regex_json_like response of Some m \<Rightarrow> JSON_parse m | None \<Rightarrow> None)"

text \<open>\<open>safeJsonParse\<close> returns \<open>null\<close> when every attempt has failed.\<close>

definition safeJsonParse :: "string \<Rightarrow> json" where
  "safeJsonParse response =
     (case recovery_stage1 response of
        Some v \<Rightarrow> v
      | None \<Rightarrow>
          (case recovery_stage2 response of
             Some v \<Rightarrow> v
           | None \<Rightarrow>
               (case recovery_stage3 response of
                  Some v \<Rightarrow> v
                | None \<Rightarrow> JNull)))"

text \<open>
  The callers pass what \<open>makeApiRequest\<close> returned, which need not be a string. On a value
  that is not a string the first attempt parses its conversion to a string, and the other
  two throw a \<open>TypeError\<close> (\<open>trim\<close> and \<open>match\<close> are not functions), which is swallowed.
\<close>

definition safeJsonParse_value :: "env \<Rightarrow> json \<Rightarrow> json" where
  "safeJsonParse_value e response =
     (case response of
        JStr s \<Rightarrow> safeJsonParse s
      | _ \<Rightarrow> (case parseNonString e response of Some v \<Rightarrow> v | None \<Rightarrow> JNull))"

section \<open>The service and its request orchestrator\<close>

text \<open>
  The state of the service instance: its two fields, and a record of its effects, the
  requests it has issued (URL and prompt, the oldest first) and the number of backoff
  sleeps it has made.
\<close>

record service =
  apiKey :: string
  useMockData :: bool
  fetchLog :: "(string \<times> string) list"
  sleepCount :: nat

definition forceMockMode :: "env \<Rightarrow> service \<Rightarrow> service" where
  "forceMockMode e s = (if \<not> envPROD e then s\<lparr>useMockData := True\<rparr> else s)"

definition isUsingMockData :: "service \<Rightarrow> bool" where
  "isUsingMockData s = useMockData s"

definition validateApiKey :: "service \<Rightarrow> bool" where
  "validateApiKey s =
     (if apiKey s = [] \<or> length (apiKey s) < 10 then False
      else if \<not> startsWith (apiKey s) ''AIza'' then False
      else True)"

text \<open>
  A request runs with its own cancellation signal: the second component of the pair is
  \<open>signal.aborted\<close>. A sleep is not tied to the signal: it runs to its end, and the
  signal is aborted afterwards if the timer has fired meanwhile.
\<close>

definition backoff_sleep :: "env \<Rightarrow> service \<times> bool \<Rightarrow> service \<times> bool" where
  "backoff_sleep e sa =
     (case sa of (s, aborted) \<Rightarrow>
        (s\<lparr>sleepCount := Suc (sleepCount s)\<rparr>, aborted \<or> timerFiresInSleep e (sleepCount s)))"

definition do_fetch :: "env \<Rightarrow> string \<Rightarrow> string \<Rightarrow> service \<Rightarrow> fetch_outcome \<times> service" where
  "do_fetch e endpoint prompt s =
     (fetchOutcome e (length (fetchLog s)),
      s\<lparr>fetchLog := fetchLog s @ [(endpoint @ ''?key='' @ apiKey s, prompt)]\<rparr>)"

text \<open>One turn of the loop of \<open>makeRequestWithRetry\<close>: how it leaves the loop body.\<close>

datatype attempt_exit =
    Return "response option"
  | Throw js_error
  | Continue "response option"

definition attempt_body ::
  "env \<Rightarrow> string \<Rightarrow> string \<Rightarrow> nat \<Rightarrow> nat \<Rightarrow> response option \<Rightarrow> service \<times> bool
   \<Rightarrow> attempt_exit \<times> service \<times> bool" where
  "attempt_body e endpoint prompt maxRetries attempt lastResponse sa =
     (case sa of (s, aborted) \<Rightarrow>
        (case (if aborted then (Inl (JsError ''Error'' ''Request was aborted''), s, aborted)
               else (case do_fetch e endpoint prompt s of
                       (Rejects fetchError, s1) \<Rightarrow>
                         (Inl fetchError, s1, aborted \<or> err_name fetchError = ''AbortError'')
                     | (Responds response, s1) \<Rightarrow> (Inr response, s1, aborted))) of
           (Inr response, s1, aborted1) \<Rightarrow>
             if ok response then (Return (Some response), s1, aborted1)
             else if status response = 429 then
               (if attempt < maxRetries
                then (Continue (Some response), backoff_sleep e (s1, aborted1))
                else (Return None, forceMockMode e s1, aborted1))
             else (Return (Some response), s1, aborted1)
         | (Inl fetchError, s1, aborted1) \<Rightarrow>
             if err_name fetchError = ''AbortError'' then (Throw fetchError, s1, aborted1)
             else if attempt < 1 then (Continue lastResponse, backoff_sleep e (s1, aborted1))
             else (Throw fetchError, s1, aborted1)))"

function retry_from ::
  "env \<Rightarrow> string \<Rightarrow> string \<Rightarrow> nat \<Rightarrow> nat \<Rightarrow> response option \<Rightarrow> service \<times> bool
   \<Rightarrow> (js_error + response option) \<times> service \<times> bool" where
  "retry_from e endpoint prompt maxRetries attempt lastResponse sa =
     (if maxRetries < attempt then (Inr lastResponse, sa)
      else (case attempt_body e endpoint prompt maxRetries attempt lastResponse sa of
              (Return r, sa') \<Rightarrow> (Inr r, sa')
            | (Throw fetchError, sa') \<Rightarrow> (Inl fetchError, sa')
            | (Continue lastResponse', sa') \<Rightarrow>
                retry_from e endpoint prompt maxRetries (Suc attempt) lastResponse' sa'))"
  by pat_completeness auto
termination
  by (relation "measure (\<lambda>(e, endpoint, prompt, maxRetries, attempt, lastResponse, sa).
                           Suc maxRetries - attempt)") auto

declare retry_from.simps [simp del]

definition makeRequestWithRetry ::
  "env \<Rightarrow> string \<Rightarrow> string \<Rightarrow> nat \<Rightarrow> service \<times> bool
   \<Rightarrow> (js_error + response option) \<times> service \<times> bool" where
  "makeRequestWithRetry e endpoint prompt maxRetries sa =
     (if envPROD e then (Inr None, sa)
      else retry_from e endpoint prompt maxRetries 0 None sa)"

definition endpoints :: "string list" where
  "endpoints =
     [''https://generativelanguage.googleapis.com/v1beta/models/gemini-1.5-flash:generateContent'',
      ''https://generativelanguage.googleapis.com/v1beta/models/gemini-pro:generateContent'',
      ''https://generativelanguage.googleapis.com/v1beta/models/gemini-1.0-pro:generateContent'']"

text \<open>
  The loop of \<open>makeApiRequest\<close> over the endpoints: it ends (by \<open>break\<close> or at the end of the
  list) with the variables \<open>response\<close> and \<open>lastError\<close>, returns the conversational mock
  reply from inside the loop, or throws.
\<close>

datatype endpoints_exit =
    Completed "response option" string
  | Returned json
  | Thrown js_error

fun try_endpoints ::
  "env \<Rightarrow> string \<Rightarrow> string list \<Rightarrow> response option \<Rightarrow> string \<Rightarrow> service \<times> bool
   \<Rightarrow> endpoints_exit \<times> service \<times> bool" where
  "try_endpoints e prompt [] response lastError sa = (Completed response lastError, sa)"
| "try_endpoints e prompt (endpoint # rest) response lastError sa =
     (case makeRequestWithRetry e endpoint prompt 2 sa of
        (Inr (Some r), sa') \<Rightarrow>
          if ok r then (Completed (Some r) lastError, sa')
          else try_endpoints e prompt rest (Some r)
                 (''Endpoint '' @ endpoint @ '': '' @ show_nat (status r) @ '' '' @ statusText r) sa'
      | (Inr None, sa') \<Rightarrow> (Returned (JStr (generateMockResponse e prompt)), sa')
      | (Inl fetchError, sa') \<Rightarrow>
          if err_name fetchError = ''AbortError''
          then (Thrown (JsError ''Error'' ''Request timed out. Please try again.''), sa')
          else try_endpoints e prompt rest response
                 (''Endpoint '' @ endpoint @ '': '' @ err_message fetchError) sa')"

text \<open>
  The check of the response envelope and the text it carries:
  \<open>data.candidates[0].content.parts[0].text || ''\<close>.
\<close>

definition invalid_structure :: js_error where
  "invalid_structure = JsError ''Error'' ''Invalid response structure from Gemini API''"

definition response_text :: "json \<Rightarrow> js_error + json" where
  "response_text data =
     (case get_prop (Some data) ''candidates'' of
        Inl err \<Rightarrow> Inl err
      | Inr candidates \<Rightarrow>
          if \<not> truthy candidates then Inl invalid_structure
          else (case get_first candidates of
                  Inl err \<Rightarrow> Inl err
                | Inr candidate \<Rightarrow>
                    if \<not> truthy candidate then Inl invalid_structure
                    else (case get_prop candidate ''content'' of
                            Inl err \<Rightarrow> Inl err
                          | Inr content \<Rightarrow>
                              if \<not> truthy content then Inl invalid_structure
                              else (case get_prop content ''parts'' of
                                      Inl err \<Rightarrow> Inl err
                                    | Inr parts \<Rightarrow>
                                        (case get_first parts of
                                           Inl err \<Rightarrow> Inl err
                                         | Inr part \<Rightarrow>
                                             (case get_prop part ''text'' of
                                                Inl err \<Rightarrow> Inl err
                                              | Inr text \<Rightarrow>
                                                  Inr (if truthy text then the text
                                                       else JStr [])))))))"

text \<open>The handler of the outer \<open>try\<close> of \<open>makeApiRequest\<close>: the error it throws on.\<close>

definition classify_error :: "js_error \<Rightarrow> js_error" where
  "classify_error error =
     (if err_name error = ''AbortError'' \<or> str_includes (err_message error) ''timed out''
      then JsError ''Error'' ''Request timed out. Please try again.''
      else if str_includes (err_message error) ''Failed to fetch''
      then JsError ''Error'' ''Network error. Please check your internet connection.''
      else if str_includes (err_message error) ''No internet connection''
      then JsError ''Error'' ''No internet connection. Please check your network.''
      else error)"

text \<open>A prompt that carries one of the markers of a structured request.\<close>

definition isStructuredPrompt :: "string \<Rightarrow> bool" where
  "isStructuredPrompt prompt =
     (str_includes prompt ([CHR 0x22] @ ''enhancedQuery'' @ [CHR 0x22])
      \<or> str_includes prompt ([CHR 0x22] @ ''categories'' @ [CHR 0x22])
      \<or> str_includes prompt ([CHR 0x22] @ ''marketAnalysis'' @ [CHR 0x22]))"

definition mockForPrompt :: "env \<Rightarrow> string \<Rightarrow> json" where
  "mockForPrompt e prompt =
     (if isStructuredPrompt prompt
      then json_of_SmartSearchResult (generateMockSmartSearchResult e (extractQueryFromPrompt prompt))
      else JStr (generateMockResponse e prompt))"

definition makeApiRequest_try :: "env \<Rightarrow> string \<Rightarrow> service \<Rightarrow> (js_error + json) \<times> service" where
  "makeApiRequest_try e prompt s =
     (if \<not> onLine e then (Inl (JsError ''Error'' ''No internet connection''), s)
      else (case try_endpoints e prompt endpoints None [] (s, False) of
              (Returned v, s', aborted) \<Rightarrow> (Inr v, s')
            | (Thrown err, s', aborted) \<Rightarrow> (Inl err, s')
            | (Completed response lastError, s', aborted) \<Rightarrow>
                if response = None \<or> \<not> ok (the response) then
                  (Inl (JsError ''Error''
                          (''All Gemini API endpoints failed. Last error: '' @ lastError)),
                   if str_includes lastError ''429'' then forceMockMode e s' else s')
                else (case json_body (the response) of
                        Inl err \<Rightarrow> (Inl err, s')
                      | Inr data \<Rightarrow> (response_text data, s'))))"

definition makeApiRequest :: "env \<Rightarrow> string \<Rightarrow> service \<Rightarrow> (js_error + json) \<times> service" where
  "makeApiRequest e prompt s =
     (if envPROD e then (Inr (mockForPrompt e prompt), s)
      else if useMockData s then (Inr (mockForPrompt e prompt), s)
      else (case makeApiRequest_try e prompt s of
              (Inl error, s') \<Rightarrow> (Inl (classify_error error), s')
            | (Inr v, s') \<Rightarrow> (Inr v, s')))"

text \<open>
  \<open>testApiConnection\<close>: the test succeeds when the request returns a string
  (\<open>response.substring\<close> throws on any other value).
\<close>

definition testApiConnection :: "env \<Rightarrow> service \<Rightarrow> bool \<times> service" where
  "testApiConnection e s =
     (if envPROD e then (False, s)
      else if useMockData s then (False, s)
      else (case makeApiRequest e ''Hello, this is a test message.'' s of
              (Inr (JStr response), s') \<Rightarrow> (True, s')
            | (Inr v, s') \<Rightarrow> (False, s')
            | (Inl error, s') \<Rightarrow> (False, s')))"

text \<open>
  The constructor, for the configured key, and the continuation of the connection test
  it starts in the background when the key is valid, which runs at some later time.
\<close>

definition construct :: "env \<Rightarrow> string \<Rightarrow> service" where
  "construct e key =
     (if envPROD e then \<lparr>apiKey = [], useMockData = True, fetchLog = [], sleepCount = 0\<rparr>
      else (let s = \<lparr>apiKey = key, useMockData = False, fetchLog = [], sleepCount = 0\<rparr>
            in s\<lparr>useMockData := \<not> validateApiKey s\<rparr>))"

definition connectionTest :: "env \<Rightarrow> service \<Rightarrow> service" where
  "connectionTest e s =
     (case testApiConnection e s of
        (success, s') \<Rightarrow> if \<not> success then s'\<lparr>useMockData := True\<rparr> else s')"

section \<open>The service facade\<close>

text \<open>A product descriptor, with the texts its title and its price are joined as.\<close>

record product =
  title :: string
  price :: string

fun join :: "string \<Rightarrow> string list \<Rightarrow> string" where
  "join sep [] = []"
| "join sep [x] = x"
| "join sep (x # y # ys) = x @ sep @ join sep (y # ys)"

definition enhanceSearchQuery_prompt :: "string \<Rightarrow> string" where
  \<open>enhanceSearchQuery_prompt query =
     ''\<newline>        Analyze this search query: "'' @ query @ ''"'' @
     ''\<newline>        '' @
     ''\<newline>        You must return ONLY valid JSON with this exact '' @
     ''structure, no markdown, no explanations, no additional text:'' @
     ''\<newline>        {'' @
     ''\<newline>          "enhancedQuery": "enhanced search query",'' @
     ''\<newline>          "categories": ['' @ ''\<newline>            {'' @
     ''\<newline>              "category": "main category",'' @
     ''\<newline>              "confidence": 0.95,'' @
     ''\<newline>              "subcategory": "subcategory"'' @
     ''\<newline>            }'' @ ''\<newline>          ],'' @
     ''\<newline>          "marketAnalysis": {'' @
     ''\<newline>            "priceRange": "price range in INR ('' @ rupee @ '')",'' @
     ''\<newline>            "marketTrend": "increasing/decreasing/stable",'' @
     ''\<newline>            "bestTimeToBuy": "recommendation",'' @
     ''\<newline>            "pricePrediction": "prediction",'' @
     ''\<newline>            "marketInsights": ["insight1", "insight2"]'' @
     ''\<newline>          },'' @ ''\<newline>          "recommendations": ['' @
     ''\<newline>            {'' @
     ''\<newline>              "productName": "product name",'' @
     ''\<newline>              "reason": "why recommend",'' @
     ''\<newline>              "category": "category",'' @
     ''\<newline>              "estimatedPrice": "price in INR ('' @ rupee @ '')",'' @
     ''\<newline>              "confidence": 0.85'' @ ''\<newline>            }'' @
     ''\<newline>          ],'' @
     ''\<newline>          "searchTips": ["tip1", "tip2", "tip3"]'' @
     ''\<newline>        }'' @ ''\<newline>        '' @
     ''\<newline>        Focus on electronics, gadgets, and consumer products. '' @
     ''Be specific and actionable.'' @
     ''\<newline>        IMPORTANT: All prices must be in Indian Rupees '' @ ''('' @ rupee @
     '') format, not USD ($).'' @
     ''\<newline>        CRITICAL: Return ONLY the JSON object above, nothing '' @
     ''else.'' @ ''\<newline>      ''\<close>

definition categorizeProducts_prompt :: "string \<Rightarrow> string" where
  \<open>categorizeProducts_prompt productTitles =
     ''\<newline>        Categorize these products: '' @ productTitles @
     ''\<newline>        '' @
     ''\<newline>        You must return ONLY valid JSON array with this '' @
     ''exact structure, no markdown, no explanations:'' @ ''\<newline>        ['' @
     ''\<newline>          {'' @ ''\<newline>            "category": "main category",'' @
     ''\<newline>            "confidence": 0.95,'' @
     ''\<newline>            "subcategory": "subcategory"'' @ ''\<newline>          }'' @
     ''\<newline>        ]'' @ ''\<newline>        '' @
     ''\<newline>        CRITICAL: Return ONLY the JSON array above, nothing '' @
     ''else.'' @ ''\<newline>      ''\<close>

definition analyzeMarketTrends_prompt :: "string \<Rightarrow> string \<Rightarrow> string" where
  \<open>analyzeMarketTrends_prompt query prices =
     ''\<newline>        Analyze market trends for "'' @ query @ ''" with prices: '' @
     prices @ ''\<newline>        '' @
     ''\<newline>        You must return ONLY valid JSON with this exact '' @
     ''structure, no markdown, no explanations:'' @ ''\<newline>        {'' @
     ''\<newline>          "priceRange": "price range in INR ('' @ rupee @ '')",'' @
     ''\<newline>          "marketTrend": "increasing/decreasing/stable",'' @
     ''\<newline>          "bestTimeToBuy": "recommendation",'' @
     ''\<newline>          "pricePrediction": "prediction",'' @
     ''\<newline>          "marketInsights": ["insight1", "insight2"]'' @
     ''\<newline>        }'' @ ''\<newline>        '' @
     ''\<newline>        IMPORTANT: All prices must be in Indian Rupees '' @ ''('' @ rupee @
     '') format, not USD ($).'' @
     ''\<newline>        CRITICAL: Return ONLY the JSON object above, nothing '' @
     ''else.'' @ ''\<newline>      ''\<close>

definition getPersonalizedRecommendations_prompt :: "string \<Rightarrow> string \<Rightarrow> string" where
  \<open>getPersonalizedRecommendations_prompt userQuery history =
     ''\<newline>        Based on user query: "'' @ userQuery @
     ''" and search history: ['' @ history @ '']'' @ ''\<newline>        '' @
     ''\<newline>        You must return ONLY valid JSON array with this '' @
     ''exact structure, no markdown, no explanations:'' @ ''\<newline>        ['' @
     ''\<newline>          {'' @ ''\<newline>            "productName": "product name",'' @
     ''\<newline>            "reason": "why recommended",'' @
     ''\<newline>            "category": "category",'' @
     ''\<newline>            "estimatedPrice": "price in INR ('' @ rupee @ '')",'' @
     ''\<newline>            "confidence": 0.85'' @ ''\<newline>          }'' @
     ''\<newline>        ]'' @ ''\<newline>        '' @
     ''\<newline>        IMPORTANT: All prices must be in Indian Rupees '' @ ''('' @ rupee @
     '') format, not USD ($).'' @
     ''\<newline>        CRITICAL: Return ONLY the JSON array above, nothing '' @
     ''else.'' @ ''\<newline>      ''\<close>

text \<open>\<open>typeof response === 'object' && response.enhancedQuery\<close>, as a condition.\<close>

definition isMockResult :: "json \<Rightarrow> js_error + bool" where
  "isMockResult response =
     (case response of
        JNull \<Rightarrow> Inl TypeError
      | JObj kvs \<Rightarrow> Inr (truthy (map_of kvs ''enhancedQuery''))
      | _ \<Rightarrow> Inr False)"

text \<open>
  Each operation is a \<open>try\<close> block and its handler. The block of
  \<open>enhanceSearchQuery\<close>:
\<close>

definition enhanceSearchQuery_try :: "env \<Rightarrow> string \<Rightarrow> service \<Rightarrow> (js_error + json) \<times> service" where
  "enhanceSearchQuery_try e query s =
     (if envPROD e then (Inr (json_of_SmartSearchResult (generateMockSmartSearchResult e query)), s)
      else if useMockData s
      then (Inr (json_of_SmartSearchResult (generateMockSmartSearchResult e query)), s)
      else (case makeApiRequest e (enhanceSearchQuery_prompt query) s of
              (Inl error, s') \<Rightarrow> (Inl error, s')
            | (Inr response, s') \<Rightarrow>
                (case isMockResult response of
                   Inl error \<Rightarrow> (Inl error, s')
                 | Inr True \<Rightarrow> (Inr response, s')
                 | Inr False \<Rightarrow>
                     (let result = safeJsonParse_value e response in
                      if truthy (Some result) then (Inr result, s')
                      else (Inr (json_of_SmartSearchResult (generateMockSmartSearchResult e query)),
                            s')))))"

definition enhanceSearchQuery :: "env \<Rightarrow> string \<Rightarrow> service \<Rightarrow> (js_error + json) \<times> service" where
  "enhanceSearchQuery e query s =
     (case enhanceSearchQuery_try e query s of
        (Inl error, s') \<Rightarrow>
          (Inr (json_of_SmartSearchResult (generateMockSmartSearchResult e query)), s')
      | (Inr v, s') \<Rightarrow> (Inr v, s'))"

text \<open>
  The other three operations share one shape: the mock result in production or mock
  mode; else the request, the recovered value when it is truthy, the mock result when it
  is not; and the mock result from the handler.
\<close>

definition request_or_mock ::
  "env \<Rightarrow> string \<Rightarrow> json \<Rightarrow> service \<Rightarrow> (js_error + json) \<times> service" where
  "request_or_mock e prompt mock s =
     (if envPROD e \<or> useMockData s then (Inr mock, s)
      else (case makeApiRequest e prompt s of
              (Inl error, s') \<Rightarrow> (Inl error, s')
            | (Inr response, s') \<Rightarrow>
                (let parsed = safeJsonParse_value e response in
                 if truthy (Some parsed) then (Inr parsed, s') else (Inr mock, s'))))"

definition or_mock :: "(js_error + json) \<times> service \<Rightarrow> json \<Rightarrow> (js_error + json) \<times> service" where
  "or_mock r mock = (case r of (Inl error, s') \<Rightarrow> (Inr mock, s') | (Inr v, s') \<Rightarrow> (Inr v, s'))"

definition categorizeProducts ::
  "env \<Rightarrow> product list \<Rightarrow> service \<Rightarrow> (js_error + json) \<times> service" where
  "categorizeProducts e products s =
     or_mock
       (request_or_mock e (categorizeProducts_prompt (join '', '' (map title products)))
          (JArr (map json_of_ProductCategory generateMockCategories)) s)
       (JArr (map json_of_ProductCategory generateMockCategories))"

definition analyzeMarketTrends ::
  "env \<Rightarrow> string \<Rightarrow> product list \<Rightarrow> service \<Rightarrow> (js_error + json) \<times> service" where
  "analyzeMarketTrends e query products s =
     or_mock
       (request_or_mock e (analyzeMarketTrends_prompt query (join '', '' (map price products)))
          (json_of_MarketAnalysis (generateMockMarketAnalysis e)) s)
       (json_of_MarketAnalysis (generateMockMarketAnalysis e))"

definition getPersonalizedRecommendations ::
  "env \<Rightarrow> string \<Rightarrow> string list \<Rightarrow> service \<Rightarrow> (js_error + json) \<times> service" where
  "getPersonalizedRecommendations e userQuery searchHistory s =
     or_mock
       (request_or_mock e
          (getPersonalizedRecommendations_prompt userQuery (join '', '' searchHistory))
          (JArr (map json_of_ProductRecommendation generateMockRecommendations)) s)
       (JArr (map json_of_ProductRecommendation generateMockRecommendations))"

section \<open>Operations on the service, one after another\<close>

text \<open>
  The public operations of the instance, and the continuation of the constructor's
  connection test. \<open>perform\<close> is the state an operation leaves; \<open>run\<close> performs a
  sequence of operations, each in the surroundings it meets.
\<close>

datatype operation =
    ForceMockMode
  | IsUsingMockData
  | ValidateApiKey
  | TestApiConnection
  | ConnectionTest
  | MakeApiRequest string
  | EnhanceSearchQuery string
  | CategorizeProducts "product list"
  | AnalyzeMarketTrends string "product list"
  | GetPersonalizedRecommendations string "string list"

fun perform :: "env \<Rightarrow> operation \<Rightarrow> service \<Rightarrow> service" where
  "perform e ForceMockMode s = forceMockMode e s"
| "perform e IsUsingMockData s = s"
| "perform e ValidateApiKey s = s"
| "perform e TestApiConnection s = snd (testApiConnection e s)"
| "perform e ConnectionTest s = connectionTest e s"
| "perform e (MakeApiRequest prompt) s = snd (makeApiRequest e prompt s)"
| "perform e (EnhanceSearchQuery query) s = snd (enhanceSearchQuery e query s)"
| "perform e (CategorizeProducts products) s = snd (categorizeProducts e products s)"
| "perform e (AnalyzeMarketTrends query products) s = snd (analyzeMarketTrends e query products s)"
| "perform e (GetPersonalizedRecommendations userQuery searchHistory) s =
     snd (getPersonalizedRecommendations e userQuery searchHistory s)"

fun run :: "(env \<times> operation) list \<Rightarrow> service \<Rightarrow> service" where
  "run [] s = s"
| "run ((e, operation) # rest) s = run rest (perform e operation s)"

text \<open>
  Requests in flight at the same time. The runtime runs one task until it waits, and a
  request waits only inside a turn of its retry loop (for \<open>fetch\<close> and for the backoff
  sleep), so the turns of several requests on the shared instance follow one another in
  some order. A turn is given by the request's endpoint and prompt and the values of
  \<open>attempt\<close> and \<open>lastResponse\<close> it starts with; no timer fires. \<open>turns\<close> is the
  state of the instance after the turns of a schedule.
\<close>

record turn =
  turn_endpoint :: string
  turn_prompt :: string
  turn_attempt :: nat
  turn_lastResponse :: "response option"

definition take_turn :: "env \<Rightarrow> turn \<Rightarrow> service \<Rightarrow> service" where
  "take_turn e t s =
     fst (snd (attempt_body e (turn_endpoint t) (turn_prompt t) 2 (turn_attempt t)
                 (turn_lastResponse t) (s, False)))"

fun turns :: "env \<Rightarrow> turn list \<Rightarrow> service \<Rightarrow> service" where
  "turns e [] s = s"
| "turns e (t # ts) s = turns e ts (take_turn e t s)"

text \<open>
  The lifetime of the instance, with requests in flight. Every piece of code that writes
  to the instance is a step: a public operation run from its start to its end; a request
  that has passed the guard of \<open>makeApiRequest\<close>, run to its end; one turn of the retry
  loop of a request in flight, whose signal may have fired; the write after the loop over
  the endpoints (\<open>forceMockMode\<close>, when the last error mentions 429); the write of the
  continuation of the constructor's connection test when the test has failed.
  \<open>lifetime\<close> is the state of the instance after a sequence of such steps.
\<close>

datatype lifetime_step =
    Operation env operation
  | RequestPastGuard env string
  | LoopTurn env turn bool
  | RateLimitNoted env
  | ProbeFailed

fun after_step :: "lifetime_step \<Rightarrow> service \<Rightarrow> service" where
  "after_step (Operation e operation) s = perform e operation s"
| "after_step (RequestPastGuard e prompt) s = snd (makeApiRequest_try e prompt s)"
| "after_step (LoopTurn e t aborted) s =
     fst (snd (attempt_body e (turn_endpoint t) (turn_prompt t) 2 (turn_attempt t)
                 (turn_lastResponse t) (s, aborted)))"
| "after_step (RateLimitNoted e) s = forceMockMode e s"
| "after_step ProbeFailed s = s\<lparr>useMockData := True\<rparr>"

fun lifetime :: "lifetime_step list \<Rightarrow> service \<Rightarrow> service" where
  "lifetime [] s = s"
| "lifetime (step # steps) s = lifetime steps (after_step step s)"

section \<open>The shapes of the declared result types\<close>

text \<open>
  Whether a value has the fields of the declared type of an operation's result, each of
  the declared type (section 3 of the specification); \<open>subcategory\<close> is optional.
\<close>

definition isStringField :: "(string \<times> json) list \<Rightarrow> string \<Rightarrow> bool" where
  "isStringField kvs k = (case map_of kvs k of Some (JStr x) \<Rightarrow> True | _ \<Rightarrow> False)"

definition isNumberField :: "(string \<times> json) list \<Rightarrow> string \<Rightarrow> bool" where
  "isNumberField kvs k = (case map_of kvs k of Some (JNum x) \<Rightarrow> True | _ \<Rightarrow> False)"

definition isString :: "json \<Rightarrow> bool" where
  "isString v = (case v of JStr x \<Rightarrow> True | _ \<Rightarrow> False)"

definition isArrayOf :: "(json \<Rightarrow> bool) \<Rightarrow> json option \<Rightarrow> bool" where
  "isArrayOf p v = (case v of Some (JArr xs) \<Rightarrow> list_all p xs | _ \<Rightarrow> False)"

definition isProductCategory :: "json \<Rightarrow> bool" where
  "isProductCategory v =
     (case v of
        JObj kvs \<Rightarrow>
          isStringField kvs ''category'' \<and> isNumberField kvs ''confidence''
          \<and> (map_of kvs ''subcategory'' = None \<or> isStringField kvs ''subcategory'')
      | _ \<Rightarrow> False)"

definition isMarketAnalysis :: "json \<Rightarrow> bool" where
  "isMarketAnalysis v =
     (case v of
        JObj kvs \<Rightarrow>
          isStringField kvs ''priceRange''
          \<and> map_of kvs ''marketTrend'' \<in> set [Some (JStr ''increasing''), Some (JStr ''decreasing''),
                                              Some (JStr ''stable'')]
          \<and> isStringField kvs ''bestTimeToBuy''
          \<and> isStringField kvs ''pricePrediction''
          \<and> isArrayOf isString (map_of kvs ''marketInsights'')
      | _ \<Rightarrow> False)"

definition isProductRecommendation :: "json \<Rightarrow> bool" where
  "isProductRecommendation v =
     (case v of
        JObj kvs \<Rightarrow>
          isStringField kvs ''productName'' \<and> isStringField kvs ''reason''
          \<and> isStringField kvs ''category'' \<and> isStringField kvs ''estimatedPrice''
          \<and> isNumberField kvs ''confidence''
      | _ \<Rightarrow> False)"

definition isSmartSearchResult :: "json \<Rightarrow> bool" where
  "isSmartSearchResult v =
     (case v of
        JObj kvs \<Rightarrow>
          isStringField kvs ''enhancedQuery''
          \<and> isArrayOf isProductCategory (map_of kvs ''categories'')
          \<and> (case map_of kvs ''marketAnalysis'' of Some m \<Rightarrow> isMarketAnalysis m | None \<Rightarrow> False)
          \<and> isArrayOf isProductRecommendation (map_of kvs ''recommendations'')
          \<and> isArrayOf isString (map_of kvs ''searchTips'')
      | _ \<Rightarrow> False)"

section \<open>Sample surroundings\<close>

text \<open>
  Surroundings and states the examples run in. \<open>development\<close> is a development build,
  on line, on the 15th of March, where every call of \<open>fetch\<close> fails for the network;
  the others differ from it in what \<open>fetch\<close> and the timer do.
\<close>

definition development :: env where
  "development =
     \<lparr>envPROD = False, onLine = True, currentMonth = 2, currentDate = 15,
      rndTrend = 0, rndReply = 0,
      fetchOutcome = (\<lambda>n. Rejects (JsError ''TypeError'' ''Failed to fetch'')),
      timerFiresInSleep = (\<lambda>n. False),
      parseNonString = (\<lambda>v. None)\<rparr>"

definition live_service :: service where
  "live_service =
     \<lparr>apiKey = ''AIzaSyExampleKey0123456789'', useMockData = False, fetchLog = [], sleepCount = 0\<rparr>"

definition mock_service :: service where
  "mock_service = live_service\<lparr>useMockData := True\<rparr>"

definition http_response :: "nat \<Rightarrow> string \<Rightarrow> js_error + json \<Rightarrow> response" where
  "http_response code reasonPhrase data = \<lparr>status = code, statusText = reasonPhrase, json_body = data\<rparr>"

text \<open>The envelope of a successful completion whose model output is \<open>text\<close>.\<close>

definition envelope :: "string \<Rightarrow> json" where
  "envelope text =
     JObj [(''candidates'',
            JArr [JObj [(''content'', JObj [(''parts'', JArr [JObj [(''text'', JStr text)]])])]])]"

definition too_many_requests :: response where
  "too_many_requests = http_response 429 ''Too Many Requests'' (Inr (JObj []))"

definition internal_error :: response where
  "internal_error = http_response 500 ''Internal Server Error'' (Inr (JObj []))"

definition success_with :: "string \<Rightarrow> response" where
  "success_with text = http_response 200 ''OK'' (Inr (envelope text))"

text \<open>The first \<open>n\<close> calls are answered 429, the later ones 200 with the text \<open>ok\<close>.\<close>

definition rate_limited_for :: "nat \<Rightarrow> env" where
  "rate_limited_for n =
     development\<lparr>fetchOutcome :=
       (\<lambda>k. if k < n then Responds too_many_requests else Responds (success_with ''ok''))\<rparr>"

text \<open>The first call is answered 500, the later ones 200 with the text \<open>hello\<close>.\<close>

definition first_endpoint_down :: env where
  "first_endpoint_down =
     development\<lparr>fetchOutcome :=
       (\<lambda>k. if k < 1 then Responds internal_error else Responds (success_with ''hello''))\<rparr>"

text \<open>The first call is answered 429 and the timer fires during the sleep that follows.\<close>

definition timeout_in_backoff :: env where
  "timeout_in_backoff =
     development\<lparr>fetchOutcome := (\<lambda>k. Responds too_many_requests),
                 timerFiresInSleep := (\<lambda>k. k = 0)\<rparr>"

text \<open>Every call is answered 200 with the given model output.\<close>

definition model_says :: "string \<Rightarrow> env" where
  "model_says text = development\<lparr>fetchOutcome := (\<lambda>k. Responds (success_with text))\<rparr>"

text \<open>The browser is off line.\<close>

definition offline :: env where
  "offline = development\<lparr>onLine := False\<rparr>"

text \<open>
  Every call is answered 200 with an envelope whose \<open>text\<close> is not a string but an
  object with an \<open>enhancedQuery\<close>.
\<close>

definition model_returns_object :: env where
  "model_returns_object =
     development\<lparr>fetchOutcome :=
       (\<lambda>k. Responds (http_response 200 ''OK''
          (Inr (JObj [(''candidates'',
                       JArr [JObj [(''content'',
                                    JObj [(''parts'',
                                           JArr [JObj [(''text'',
                                                        JObj [(''enhancedQuery'',
                                                               JStr ''tv deals'')])]])])]])]))))\<rparr>"

text \<open>
  A JSON text between a leading and a trailing prose, in a fenced code block tagged
  \<open>json\<close> and without a fence.
\<close>

definition fenced :: "string \<Rightarrow> string \<Rightarrow> string \<Rightarrow> string" where
  "fenced pre s post = pre @ fence @ ''json\<newline>'' @ s @ ''\<newline>'' @ fence @ post"

definition embedded :: "string \<Rightarrow> string \<Rightarrow> string \<Rightarrow> string" where
  "embedded pre s post = pre @ s @ post"

text \<open>
  A text that holds \<open>s\<close> with no opening brace before it and no closing brace after it.
\<close>

definition framed :: "string \<Rightarrow> string \<Rightarrow> bool" where
  "framed s t = (\<exists>a b. t = a @ s @ b \<and> CHR ''{'' \<notin> set a \<and> CHR ''}'' \<notin> set b)"

text \<open>
  Two requests to the first endpoint, with the prompts \<open>A\<close> and \<open>B\<close>: the turn of each
  with a given value of \<open>attempt\<close>, where every earlier call was answered 429.
\<close>

definition turn_of :: "string \<Rightarrow> nat \<Rightarrow> turn" where
  "turn_of prompt attempt =
     \<lparr>turn_endpoint = endpoints ! 0, turn_prompt = prompt, turn_attempt = attempt,
      turn_lastResponse = (if attempt = 0 then None else Some too_many_requests)\<rparr>"

text \<open>The timer fires while the first call of \<open>fetch\<close> is in flight.\<close>

definition timeout_in_flight :: env where
  "timeout_in_flight =
     development\<lparr>fetchOutcome :=
       (\<lambda>k. Rejects (JsError ''AbortError'' ''The operation was aborted.''))\<rparr>"

section \<open>Drawing from a list\<close>

lemma random_index_less: "0 < n \<Longrightarrow> random_index r n < n"
proof -
  assume n: "0 < n"
  have "frac r * of_nat n < of_nat n"
    using n frac_lt_1 [of r] by simp
  then have "\<lfloor>frac r * of_nat n\<rfloor> < int n"
    by (simp add: floor_less_iff)
  then show ?thesis
    unfolding random_index_def using n by linarith
qed

lemma pick_in_list: "xs \<noteq> [] \<Longrightarrow> pick r xs \<in> set xs"
  using random_index_less [of "length xs" r] by (simp add: pick_def)

section \<open>The category classifier\<close>

lemma generateDynamicCategories_table:
  "generateDynamicCategories query = classify_by_table query"
  unfolding generateDynamicCategories_def classify_by_table_def category_groups_def
    default_categories_def
  by simp

lemma classify_by_table_two:
  "length (classify_by_table query) = 2 \<and> list_all confidence_in_range (classify_by_table query)"
  unfolding classify_by_table_def category_groups_def default_categories_def
    confidence_in_range_def mkCategory_def
  by simp

text \<open>
  C9. For every query the classifier returns the two entries of the first keyword group
  that matches, or the two default entries (General, Retail) when none does: exactly two
  entries, each with a confidence in the interval (0, 1].
\<close>

theorem generateDynamicCategories_two_entries:
  "generateDynamicCategories query = classify_by_table query
   \<and> length (generateDynamicCategories query) = 2
   \<and> list_all confidence_in_range (generateDynamicCategories query)"
  using generateDynamicCategories_table classify_by_table_two by simp

section \<open>The structured mock result\<close>

lemma iphone_flags:
  "regex_test_i [''phone'', ''smartphone'', ''mobile''] ''iphone''"
  "isElectronics ''iphone''" "isApple ''iphone''" "\<not> isExpensive ''iphone''"
  by (simp_all add: regex_test_i_def toLowerCase_def toLowerCase_char_def isElectronics_def
      isApple_def isExpensive_def)

lemma iphone_categories:
  "generateDynamicCategories ''iphone'' =
     [mkCategory ''Electronics'' 0.95 ''Smartphones'',
      mkCategory ''Mobile Devices'' 0.88 ''Communication'']"
  unfolding generateDynamicCategories_def using iphone_flags(1) by simp

lemma iphone_priceRange:
  "dynamicPriceRange ''iphone'' = rupee @ ''15,000 - '' @ rupee @ ''80,000''"
  unfolding dynamicPriceRange_def using iphone_flags by simp

lemma premium_bracket_only_if:
  "dynamicPriceRange query = rupee @ ''1,00,000 - '' @ rupee @ ''2,00,000''
   \<Longrightarrow> isApple query \<and> isExpensive query"
  unfolding dynamicPriceRange_def rupee_def by (simp split: if_splits)

lemma mock_mode_enhanceSearchQuery:
  "envPROD e \<or> useMockData s \<Longrightarrow>
   enhanceSearchQuery e query s =
     (Inr (json_of_SmartSearchResult (generateMockSmartSearchResult e query)), s)"
  by (auto simp: enhanceSearchQuery_def enhanceSearchQuery_try_def)

lemma iphone_pro_flags: "isApple ''iPhone 15 Pro''" "isExpensive ''iPhone 15 Pro''"
  by (simp_all add: regex_test_i_def toLowerCase_def toLowerCase_char_def isApple_def
      isExpensive_def)

text \<open>
  C8. In mock mode (or in a production build) \<open>enhanceSearchQuery("iphone")\<close> returns the
  structured mock result for \<open>iphone\<close>: its \<open>enhancedQuery\<close> is \<open>iphone best deals 2024\<close>
  and its first category is Electronics, 0.95, Smartphones. Its price range is the
  electronics bracket, 15,000 to 80,000 rupees; for any query the price range is the
  Apple premium bracket, 1,00,000 to 2,00,000 rupees, only if the query matches the
  Apple keywords and the expensive keywords (pro, max, ultra, premium, flagship).
\<close>

theorem mock_enhanceSearchQuery_iphone:
  "envPROD e \<or> useMockData s \<Longrightarrow>
     enhanceSearchQuery e ''iphone'' s =
       (Inr (json_of_SmartSearchResult (generateMockSmartSearchResult e ''iphone'')), s)
   \<and> enhancedQuery (generateMockSmartSearchResult e ''iphone'') = ''iphone best deals 2024''
   \<and> nth_opt (categories (generateMockSmartSearchResult e ''iphone'')) 0 =
       Some \<lparr>category = ''Electronics'', confidence = 0.95, subcategory = Some ''Smartphones''\<rparr>
   \<and> priceRange (marketAnalysis (generateMockSmartSearchResult e ''iphone'')) =
       rupee @ ''15,000 - '' @ rupee @ ''80,000''
   \<and> (priceRange (marketAnalysis (generateMockSmartSearchResult e query)) =
         rupee @ ''1,00,000 - '' @ rupee @ ''2,00,000''
       \<longrightarrow> isApple query \<and> isExpensive query)"
  using mock_mode_enhanceSearchQuery [of e s "''iphone''"] premium_bracket_only_if [of query]
  by (simp add: generateMockSmartSearchResult_def Let_def iphone_categories iphone_priceRange
      generateDynamicMarketAnalysis_def nth_opt_def mkCategory_def)

theorem mock_enhanceSearchQuery_iphone_witness:
  "useMockData mock_service
   \<and> fst (enhanceSearchQuery development ''iphone'' mock_service) =
       Inr (json_of_SmartSearchResult (generateMockSmartSearchResult development ''iphone''))
   \<and> priceRange (marketAnalysis (generateMockSmartSearchResult development ''iPhone 15 Pro'')) =
       rupee @ ''1,00,000 - '' @ rupee @ ''2,00,000''
   \<and> isExpensive ''iPhone 15 Pro''"
  using mock_enhanceSearchQuery_iphone [of development mock_service "''iPhone 15 Pro''"]
  by (simp add: mock_service_def live_service_def generateMockSmartSearchResult_def Let_def
      generateDynamicMarketAnalysis_def dynamicPriceRange_def iphone_pro_flags)

section \<open>The retry routine\<close>

lemma retry_from_unfold:
  "retry_from e endpoint prompt maxRetries attempt lastResponse sa =
     (if maxRetries < attempt then (Inr lastResponse, sa)
      else (case attempt_body e endpoint prompt maxRetries attempt lastResponse sa of
              (Return r, sa') \<Rightarrow> (Inr r, sa')
            | (Throw fetchError, sa') \<Rightarrow> (Inl fetchError, sa')
            | (Continue lastResponse', sa') \<Rightarrow>
                retry_from e endpoint prompt maxRetries (Suc attempt) lastResponse' sa'))"
  by (rule retry_from.simps)



lemma attempt_responded:
  assumes "fetchOutcome e (length (fetchLog s)) = Responds r" "status r \<noteq> 429"
  shows "attempt_body e endpoint prompt maxRetries attempt lastResponse (s, False) =
           (Return (Some r),
            s\<lparr>fetchLog := fetchLog s @ [(endpoint @ ''?key='' @ apiKey s, prompt)]\<rparr>, False)"
  using assms by (simp add: attempt_body_def do_fetch_def)




section \<open>The loop over the endpoints\<close>

lemma retry_returns_response:
  assumes "\<not> envPROD e" "fetchOutcome e (length (fetchLog s)) = Responds r" "status r \<noteq> 429"
  shows "makeRequestWithRetry e endpoint prompt maxRetries (s, False) =
           (Inr (Some r),
            s\<lparr>fetchLog := fetchLog s @ [(endpoint @ ''?key='' @ apiKey s, prompt)]\<rparr>, False)"
  using assms unfolding makeRequestWithRetry_def
  by (subst retry_from_unfold) (simp add: attempt_responded)

text \<open>
  C7. Endpoint fallback: in a development build that is on line and not in mock mode,
  when the first endpoint answers with an HTTP failure other than 429 and the second
  endpoint answers with an HTTP success whose envelope carries a model text,
  \<open>makeApiRequest\<close> returns that text, and the requests it has issued are exactly two, to
  the first and to the second endpoint: none goes to the third.
\<close>

theorem endpoint_fallback:
  assumes "\<not> envPROD e" "\<not> useMockData s" "onLine e"
    and "fetchOutcome e (length (fetchLog s)) = Responds rA" "\<not> ok rA" "status rA \<noteq> 429"
    and "fetchOutcome e (Suc (length (fetchLog s))) = Responds rB" "ok rB"
    and "json_body rB = Inr data" "response_text data = Inr text"
  shows "makeApiRequest e prompt s =
           (Inr text,
            s\<lparr>fetchLog := fetchLog s @ [(endpoints ! 0 @ ''?key='' @ apiKey s, prompt),
                                       (endpoints ! 1 @ ''?key='' @ apiKey s, prompt)]\<rparr>)"
proof -
  let ?s1 = "s\<lparr>fetchLog := fetchLog s @ [(endpoints ! 0 @ ''?key='' @ apiKey s, prompt)]\<rparr>"
  let ?s2 = "?s1\<lparr>fetchLog := fetchLog ?s1 @ [(endpoints ! 1 @ ''?key='' @ apiKey ?s1, prompt)]\<rparr>"
  have notB: "status rB \<noteq> 429" using \<open>ok rB\<close> by (auto simp: ok_def)
  have r1: "makeRequestWithRetry e (endpoints ! 0) prompt 2 (s, False) = (Inr (Some rA), ?s1, False)"
    using retry_returns_response [of e s rA "endpoints ! 0" prompt 2] assms by simp
  have r2: "makeRequestWithRetry e (endpoints ! 1) prompt 2 (?s1, False) = (Inr (Some rB), ?s2, False)"
    using retry_returns_response [of e ?s1 rB "endpoints ! 1" prompt 2] assms notB by simp
  have eps: "endpoints = [endpoints ! 0, endpoints ! 1, endpoints ! 2]"
    by (simp add: endpoints_def)
  have "try_endpoints e prompt endpoints None [] (s, False) =
          (Completed (Some rB)
             (''Endpoint '' @ endpoints ! 0 @ '': '' @ show_nat (status rA) @ '' '' @ statusText rA),
           ?s2, False)"
    by (subst eps) (use r1 r2 assms in simp)
  then show ?thesis
    using assms by (simp add: makeApiRequest_def makeApiRequest_try_def)
qed

theorem endpoint_fallback_witness:
  "\<not> envPROD first_endpoint_down \<and> \<not> useMockData live_service \<and> onLine first_endpoint_down
   \<and> fetchOutcome first_endpoint_down 0 = Responds internal_error
   \<and> \<not> ok internal_error \<and> status internal_error \<noteq> 429
   \<and> fetchOutcome first_endpoint_down 1 = Responds (success_with ''hello'')
   \<and> ok (success_with ''hello'')
   \<and> response_text (envelope ''hello'') = Inr (JStr ''hello'')
   \<and> makeApiRequest first_endpoint_down ''p'' live_service =
       (Inr (JStr ''hello''),
        live_service\<lparr>fetchLog := [(endpoints ! 0 @ ''?key='' @ apiKey live_service, ''p''),
                                  (endpoints ! 1 @ ''?key='' @ apiKey live_service, ''p'')]\<rparr>)"
  using endpoint_fallback [of first_endpoint_down live_service internal_error
      "success_with ''hello''" "envelope ''hello''" "JStr ''hello''" "''p''"]
  by (simp add: first_endpoint_down_def development_def live_service_def internal_error_def
      success_with_def http_response_def ok_def envelope_def response_text_def nth_opt_def)


lemma try_endpoints_Returned:
  "try_endpoints e prompt eps response lastError sa = (Returned v, sa') \<Longrightarrow>
   v = JStr (generateMockResponse e prompt)"
proof (induction eps arbitrary: response lastError sa)
  case Nil
  then show ?case by simp
next
  case (Cons endpoint rest)
  then show ?case
    by (auto split: prod.splits sum.splits option.splits if_splits)
qed








text \<open>
  C6, where the code departs from the claim. The first endpoint answers 429 and the
  timer fires during the backoff sleep that follows. The next attempt finds the signal
  aborted and throws a plain \<open>Error\<close> (Request was aborted), which is not an
  \<open>AbortError\<close>: the loop goes on to the second and the third endpoint, each sleeping once
  more, and \<open>makeApiRequest\<close> throws the error of exhausted endpoints, not the timeout
  error. When the timer fires while a call is in flight, the call rejects with an
  \<open>AbortError\<close> and \<open>makeApiRequest\<close> throws the timeout error at once.
\<close>

theorem timeout_during_backoff:
  "makeApiRequest timeout_in_backoff ''p'' live_service =
     (Inl (JsError ''Error''
            (''All Gemini API endpoints failed. Last error: Endpoint '' @ endpoints ! 2
             @ '': Request was aborted'')),
      live_service\<lparr>fetchLog := [(endpoints ! 0 @ ''?key='' @ apiKey live_service, ''p'')],
                   sleepCount := 3\<rparr>)
   \<and> makeApiRequest timeout_in_flight ''p'' live_service =
     (Inl (JsError ''Error'' ''Request timed out. Please try again.''),
      live_service\<lparr>fetchLog := [(endpoints ! 0 @ ''?key='' @ apiKey live_service, ''p'')]\<rparr>)"
  by code_simp

section \<open>Response recovery: the cleaning pass\<close>

lemma startsWith_iff: "startsWith t p \<longleftrightarrow> (\<exists>r. t = p @ r)"
proof (induction t p rule: startsWith.induct)
  case (1 s) show ?case by simp
next
  case (2 p ps) show ?case by simp
next
  case (3 c cs p ps) then show ?case by auto
qed

lemma dropWhile_before:
  "\<not> P x \<Longrightarrow> dropWhile P (a @ x # r) = dropWhile P a @ x # r"
  by (induction a) auto

lemma trim_around:
  assumes "\<not> isSpace x" "\<not> isSpace y"
  shows "trim (a @ x # m @ y # b) = dropWhile isSpace a @ x # m @ y # rev (dropWhile isSpace (rev b))"
proof -
  have 1: "dropWhile isSpace (a @ x # m @ y # b) = dropWhile isSpace a @ x # m @ y # b"
    using assms(1) by (rule dropWhile_before)
  have "rev (dropWhile isSpace a @ x # m @ y # b) = rev b @ y # (rev m @ x # rev (dropWhile isSpace a))"
    by simp
  then have "dropWhile isSpace (rev (dropWhile isSpace a @ x # m @ y # b)) =
               dropWhile isSpace (rev b) @ y # (rev m @ x # rev (dropWhile isSpace a))"
    using assms(2) dropWhile_before [of isSpace y "rev b" "rev m @ x # rev (dropWhile isSpace a)"]
    by simp
  then show ?thesis
    unfolding trim_def 1 by simp
qed

lemma brace_not_space: "\<not> isSpace CHR ''{''" "\<not> isSpace CHR ''}''"
  by (simp_all add: isSpace_def)

lemma framed_trim:
  assumes "framed (CHR ''{'' # m @ [CHR ''}'']) t"
  shows "framed (CHR ''{'' # m @ [CHR ''}'']) (trim t)"
proof -
  from assms obtain a b where t: "t = a @ (CHR ''{'' # m @ [CHR ''}'']) @ b"
    and a: "CHR ''{'' \<notin> set a" and b: "CHR ''}'' \<notin> set b"
    unfolding framed_def by blast
  have "trim t = dropWhile isSpace a @ (CHR ''{'' # m @ [CHR ''}'']) @ rev (dropWhile isSpace (rev b))"
    using trim_around [OF brace_not_space, of a m b] t by simp
  moreover have "CHR ''{'' \<notin> set (dropWhile isSpace a)"
    using a set_dropWhileD by fastforce
  moreover have "CHR ''}'' \<notin> set (rev (dropWhile isSpace (rev b)))"
    using b set_dropWhileD [of "CHR ''}''" isSpace "rev b"] by auto
  ultimately show ?thesis unfolding framed_def by blast
qed

lemma drop_prefix_before:
  assumes "t = a @ x # r" "x \<notin> set a" "startsWith t p" "x \<notin> set p"
  shows "\<exists>a'. drop (length p) t = a' @ x # r \<and> set a' \<subseteq> set a"
proof -
  from assms(3) obtain q where q: "t = p @ q" unfolding startsWith_iff by blast
  with assms(1) have "p @ q = a @ x # r" by simp
  then obtain us where "(p = a @ us \<and> us @ q = x # r) \<or> (p @ us = a \<and> q = us @ x # r)"
    unfolding append_eq_append_conv2 by blast
  then show ?thesis
  proof
    assume h: "p = a @ us \<and> us @ q = x # r"
    have "us = []"
    proof (cases us)
      case Nil then show ?thesis .
    next
      case (Cons u us')
      with h have "u = x" by simp
      with h Cons assms(4) show ?thesis by simp
    qed
    with h q show ?thesis by auto
  next
    assume h: "p @ us = a \<and> q = us @ x # r"
    with q have "drop (length p) t = us @ x # r" by simp
    moreover have "set us \<subseteq> set a" using h by auto
    ultimately show ?thesis by blast
  qed
qed

lemma framed_drop_prefix:
  assumes "framed (CHR ''{'' # m @ [CHR ''}'']) t" "startsWith t p" "CHR ''{'' \<notin> set p"
  shows "framed (CHR ''{'' # m @ [CHR ''}'']) (drop (length p) t)"
proof -
  from assms(1) obtain a b where t: "t = a @ (CHR ''{'' # m @ [CHR ''}'']) @ b"
    and a: "CHR ''{'' \<notin> set a" and b: "CHR ''}'' \<notin> set b"
    unfolding framed_def by blast
  from t have "t = a @ CHR ''{'' # (m @ [CHR ''}''] @ b)" by simp
  from drop_prefix_before [OF this a assms(2,3)]
  obtain a' where "drop (length p) t = a' @ CHR ''{'' # (m @ [CHR ''}''] @ b)" "set a' \<subseteq> set a"
    by blast
  then have "drop (length p) t = a' @ (CHR ''{'' # m @ [CHR ''}'']) @ b \<and> CHR ''{'' \<notin> set a'"
    using a by auto
  then show ?thesis using b unfolding framed_def by blast
qed

lemma framed_drop_suffix:
  assumes "framed (CHR ''{'' # m @ [CHR ''}'']) t" "endsWith t p" "CHR ''}'' \<notin> set p"
  shows "framed (CHR ''{'' # m @ [CHR ''}'']) (take (length t - length p) t)"
proof -
  from assms(1) obtain a b where t: "t = a @ (CHR ''{'' # m @ [CHR ''}'']) @ b"
    and a: "CHR ''{'' \<notin> set a" and b: "CHR ''}'' \<notin> set b"
    unfolding framed_def by blast
  from t have rt: "rev t = rev b @ CHR ''}'' # (rev m @ CHR ''{'' # rev a)" by simp
  have sw: "startsWith (rev t) (rev p)" using assms(2) by (simp add: endsWith_def)
  from drop_prefix_before [OF rt _ sw] b assms(3)
  obtain b' where b': "drop (length (rev p)) (rev t) = b' @ CHR ''}'' # (rev m @ CHR ''{'' # rev a)"
    "set b' \<subseteq> set (rev b)"
    by auto
  have "take (length t - length p) t = rev (drop (length p) (rev t))"
    by (simp add: rev_drop)
  also have "\<dots> = a @ (CHR ''{'' # m @ [CHR ''}'']) @ rev b'"
    using b' by simp
  finally have "take (length t - length p) t = a @ (CHR ''{'' # m @ [CHR ''}'']) @ rev b'" .
  moreover have "CHR ''}'' \<notin> set (rev b')" using b' b by auto
  ultimately show ?thesis using a unfolding framed_def by blast
qed

lemma upto_last_exact:
  "y \<notin> set b \<Longrightarrow> upto_last y (m @ y # b) = m @ [y]"
proof -
  assume "y \<notin> set b"
  then have "dropWhile (\<lambda>x. x \<noteq> y) (rev b @ y # rev m) = y # rev m"
    by (induction b rule: rev_induct) auto
  then show ?thesis by (simp add: upto_last_def)
qed

lemma regex_span_framed:
  assumes "x \<notin> set a" "y \<notin> set b"
  shows "regex_span x y (a @ x # m @ y # b) = Some (x # m @ [y])"
  using assms(1)
proof (induction a)
  case Nil
  have "upto_last y (m @ y # b) = m @ [y]" using assms(2) by (rule upto_last_exact)
  then show ?case by simp
next
  case (Cons c a)
  then show ?case by auto
qed

lemma regex_json_like_framed:
  assumes "CHR ''{'' \<notin> set a" "CHR ''['' \<notin> set a" "CHR ''}'' \<notin> set b"
  shows "regex_json_like (a @ CHR ''{'' # m @ CHR ''}'' # b) = Some (CHR ''{'' # m @ [CHR ''}''])"
  using assms(1,2)
proof (induction a)
  case Nil
  have "upto_last CHR ''}'' (m @ CHR ''}'' # b) = m @ [CHR ''}'']"
    using assms(3) by (rule upto_last_exact)
  then show ?case by simp
next
  case (Cons c a)
  then show ?case by auto
qed

lemma cleanGeminiResponse_framed:
  assumes "framed (CHR ''{'' # m @ [CHR ''}'']) t"
  shows "cleanGeminiResponse t =
           (case regex_span CHR ''['' CHR '']'' (CHR ''{'' # m @ [CHR ''}'']) of
              Some inner \<Rightarrow> inner
            | None \<Rightarrow> CHR ''{'' # m @ [CHR ''}''])"
proof -
  let ?s = "CHR ''{'' # m @ [CHR ''}'']"
  define c1 where "c1 = trim t"
  define c2 where "c2 = (if startsWith c1 (fence @ ''json'') then substring_from c1 7
                     else if startsWith c1 fence then substring_from c1 3 else c1)"
  define c3 where "c3 = (if endsWith c2 fence then substring_to c2 (length c2 - 3) else c2)"
  define c4 where "c4 = trim c3"
  have f1: "framed ?s c1" unfolding c1_def using assms by (rule framed_trim)
  have f2: "framed ?s c2"
    unfolding c2_def substring_from_def
    using framed_drop_prefix [OF f1, of "fence @ ''json''"] framed_drop_prefix [OF f1, of fence] f1
    by (simp add: fence_def eval_nat_numeral)
  have f3: "framed ?s c3"
    unfolding c3_def substring_to_def
    using framed_drop_suffix [OF f2, of fence] f2 by (simp add: fence_def eval_nat_numeral)
  have f4: "framed ?s c4" unfolding c4_def using f3 by (rule framed_trim)
  then obtain a b where c4: "c4 = a @ ?s @ b" and a: "CHR ''{'' \<notin> set a" and b: "CHR ''}'' \<notin> set b"
    unfolding framed_def by blast
  have "regex_span CHR ''{'' CHR ''}'' c4 = Some ?s"
    using regex_span_framed [OF a b, of m] c4 by simp
  then show ?thesis
    unfolding cleanGeminiResponse_def Let_def c1_def [symmetric] c2_def [symmetric]
      c3_def [symmetric] c4_def [symmetric]
    by (simp split: option.split)
qed

lemma framed_fenced:
  assumes "CHR ''{'' \<notin> set pre" "CHR ''}'' \<notin> set post"
  shows "framed s (fenced pre s post)" "framed s (embedded pre s post)"
proof -
  have "fenced pre s post = (pre @ fence @ ''json\<newline>'') @ s @ (''\<newline>'' @ fence @ post)"
    by (simp add: fenced_def)
  moreover have "CHR ''{'' \<notin> set (pre @ fence @ ''json\<newline>'')"
    using assms(1) by (simp add: fence_def)
  moreover have "CHR ''}'' \<notin> set (''\<newline>'' @ fence @ post)"
    using assms(2) by (simp add: fence_def)
  ultimately show "framed s (fenced pre s post)" unfolding framed_def by blast
  show "framed s (embedded pre s post)"
    unfolding framed_def embedded_def using assms by blast
qed

text \<open>
  C4, as the code has it. Let \<open>s\<close> be a text that \<open>JSON.parse\<close> accepts, with value
  \<open>v\<close>, that starts with an opening brace and ends with a closing brace; let the leading
  prose have no opening brace and the trailing prose no closing brace. Then stage 1
  recovers \<open>v\<close> from \<open>s\<close> itself; stage 2 recovers \<open>v\<close> from \<open>s\<close> in a fenced block
  between the proses, and from \<open>s\<close> between the proses without a fence, provided \<open>s\<close>
  has no opening bracket followed by a closing bracket; stage 3 recovers \<open>v\<close> from both
  texts provided the leading prose has no opening bracket; and \<open>safeJsonParse\<close> returns
  \<open>v\<close> for the fenced text when \<open>s\<close> has no such bracket span.
\<close>

theorem recovery_round_trip:
  assumes "JSON_parse s = Some v" and "s = CHR ''{'' # body @ [CHR ''}'']"
    and "CHR ''{'' \<notin> set pre" and "CHR ''}'' \<notin> set post"
  shows "recovery_stage1 s = Some v
       \<and> (regex_span CHR ''['' CHR '']'' s = None
          \<longrightarrow> recovery_stage2 (fenced pre s post) = Some v
              \<and> recovery_stage2 (embedded pre s post) = Some v)
       \<and> (CHR ''['' \<notin> set pre
          \<longrightarrow> recovery_stage3 (embedded pre s post) = Some v
              \<and> recovery_stage3 (fenced pre s post) = Some v)
       \<and> (regex_span CHR ''['' CHR '']'' s = None \<and> recovery_stage1 (fenced pre s post) = None
          \<longrightarrow> safeJsonParse (fenced pre s post) = v)"
proof -
  have s1: "recovery_stage1 s = Some v"
    using assms(1) by (simp add: recovery_stage1_def)
  have clean: "regex_span CHR ''['' CHR '']'' s = None \<Longrightarrow>
               cleanGeminiResponse (fenced pre s post) = s \<and> cleanGeminiResponse (embedded pre s post) = s"
    using cleanGeminiResponse_framed [of body "fenced pre s post"]
      cleanGeminiResponse_framed [of body "embedded pre s post"]
      framed_fenced [OF assms(3,4), of s] assms(2)
    by simp
  have s2: "regex_span CHR ''['' CHR '']'' s = None \<Longrightarrow>
            recovery_stage2 (fenced pre s post) = Some v \<and> recovery_stage2 (embedded pre s post) = Some v"
    using clean assms(1) by (simp add: recovery_stage2_def)
  have s3: "recovery_stage3 (embedded pre s post) = Some v \<and> recovery_stage3 (fenced pre s post) = Some v"
    if "CHR ''['' \<notin> set pre"
  proof -
    have "regex_json_like (pre @ CHR ''{'' # body @ CHR ''}'' # post) = Some s"
      using regex_json_like_framed [OF assms(3) that assms(4), of body] assms(2) by simp
    moreover have "regex_json_like ((pre @ fence @ ''json\<newline>'') @ CHR ''{'' # body @ CHR ''}'' # (''\<newline>'' @ fence @ post)) = Some s"
      using regex_json_like_framed [of "pre @ fence @ ''json\<newline>''" "''\<newline>'' @ fence @ post" body]
        assms(2,3,4) that
      by (simp add: fence_def)
    ultimately show ?thesis
      using assms(1,2) by (simp add: recovery_stage3_def embedded_def fenced_def)
  qed
  show ?thesis
    using s1 s2 s3 by (simp add: safeJsonParse_def)
qed

lemma sample_object: "JSON_parse ''{\"a\": 1}'' = Some (JObj [(''a'', JNum 1)])"
  by code_simp

theorem recovery_round_trip_witness:
  "JSON_parse ''{\"a\": 1}'' = Some (JObj [(''a'', JNum 1)])
   \<and> CHR ''{'' \<notin> set ''Here is the result: ''
   \<and> CHR ''['' \<notin> set ''Here is the result: ''
   \<and> CHR ''}'' \<notin> set '' Hope this helps.''
   \<and> regex_span CHR ''['' CHR '']'' ''{\"a\": 1}'' = None
   \<and> recovery_stage1 ''{\"a\": 1}'' = Some (JObj [(''a'', JNum 1)])
   \<and> recovery_stage2 (fenced ''Here is the result: '' ''{\"a\": 1}'' '' Hope this helps.'')
       = Some (JObj [(''a'', JNum 1)])
   \<and> recovery_stage3 (embedded ''Here is the result: '' ''{\"a\": 1}'' '' Hope this helps.'')
       = Some (JObj [(''a'', JNum 1)])"
  using recovery_round_trip [OF sample_object, of "''\"a\": 1''" "''Here is the result: ''"
      "'' Hope this helps.''"] sample_object
  by simp

text \<open>
  The claim as written fails. A brace in the leading prose defeats stage 2 and stage 3,
  whose patterns take everything from the first opening brace to the last closing brace;
  and stage 2 turns an object that holds an array into that array.
\<close>

theorem recovery_round_trip_fails:
  "JSON_parse ''{\"a\": 1}'' = Some (JObj [(''a'', JNum 1)])
   \<and> recovery_stage2 (fenced ''Note {x}: '' ''{\"a\": 1}'' '' done'') = None
   \<and> recovery_stage3 (embedded ''Note {x}: '' ''{\"a\": 1}'' '' done'') = None
   \<and> safeJsonParse (fenced ''Note {x}: '' ''{\"a\": 1}'' '' done'') = JNull
   \<and> JSON_parse ''{\"a\": [1]}'' = Some (JObj [(''a'', JArr [JNum 1])])
   \<and> recovery_stage2 (fenced ''Here: '' ''{\"a\": [1]}'' '' done'') = Some (JArr [JNum 1])"
  by code_simp

text \<open>
  C3, where the code departs from the claim. The model output is a fenced JSON object
  with an array field. The cleaning pass takes the object span and then, with no
  \<open>else\<close>, takes the array span inside it: the value parsed by stage 2, and returned by
  \<open>safeJsonParse\<close>, is the inner array, not the object.
\<close>

theorem array_inside_object_wins:
  "recovery_stage1
     (fenced [] ''{\"priceRange\": \"x\", \"marketInsights\": [\"a\", \"b\"]}'' []) = None
   \<and> regex_span CHR ''{'' CHR ''}''
       (fenced [] ''{\"priceRange\": \"x\", \"marketInsights\": [\"a\", \"b\"]}'' [])
       = Some ''{\"priceRange\": \"x\", \"marketInsights\": [\"a\", \"b\"]}''
   \<and> regex_span CHR ''['' CHR '']''
       (fenced [] ''{\"priceRange\": \"x\", \"marketInsights\": [\"a\", \"b\"]}'' [])
       = Some ''[\"a\", \"b\"]''
   \<and> cleanGeminiResponse
       (fenced [] ''{\"priceRange\": \"x\", \"marketInsights\": [\"a\", \"b\"]}'' [])
       = ''[\"a\", \"b\"]''
   \<and> safeJsonParse
       (fenced [] ''{\"priceRange\": \"x\", \"marketInsights\": [\"a\", \"b\"]}'' [])
       = JArr [JStr ''a'', JStr ''b'']
   \<and> JSON_parse ''{\"priceRange\": \"x\", \"marketInsights\": [\"a\", \"b\"]}''
       = Some (JObj [(''priceRange'', JStr ''x''),
                     (''marketInsights'', JArr [JStr ''a'', JStr ''b''])])"
  by code_simp

section \<open>Mock mode\<close>

lemma mock_makeApiRequest: "useMockData s \<Longrightarrow> snd (makeApiRequest e prompt s) = s"
  by (simp add: makeApiRequest_def)

lemma mock_request_or_mock: "useMockData s \<Longrightarrow> snd (or_mock (request_or_mock e prompt mock s) mock) = s"
  by (simp add: request_or_mock_def or_mock_def)

lemma mock_enhance: "useMockData s \<Longrightarrow> snd (enhanceSearchQuery e query s) = s"
  by (simp add: enhanceSearchQuery_def enhanceSearchQuery_try_def)

lemma mock_testApiConnection: "useMockData s \<Longrightarrow> testApiConnection e s = (False, s)"
  by (simp add: testApiConnection_def)

lemma mock_perform:
  assumes "useMockData s"
  shows "useMockData (perform e operation s) \<and> fetchLog (perform e operation s) = fetchLog s"
  using assms
  by (cases operation)
     (simp_all add: forceMockMode_def connectionTest_def mock_makeApiRequest mock_request_or_mock
        mock_enhance mock_testApiConnection categorizeProducts_def analyzeMarketTrends_def
        getPersonalizedRecommendations_def)

lemma attempt_body_keeps_mock:
  "useMockData s \<Longrightarrow>
   useMockData (fst (snd (attempt_body e endpoint prompt maxRetries attempt lastResponse (s, aborted))))"
  by (auto simp: attempt_body_def do_fetch_def backoff_sleep_def forceMockMode_def
      split: fetch_outcome.splits)

lemma retry_from_keeps_mock:
  "useMockData (fst sa) \<Longrightarrow>
   useMockData (fst (snd (retry_from e endpoint prompt maxRetries attempt lastResponse sa)))"
proof (induction e endpoint prompt maxRetries attempt lastResponse sa rule: retry_from.induct)
  case (1 e endpoint prompt maxRetries attempt lastResponse sa)
  obtain s aborted where sa: "sa = (s, aborted)" by (cases sa)
  obtain x s1 aborted1 where
    body: "attempt_body e endpoint prompt maxRetries attempt lastResponse sa = (x, s1, aborted1)"
    by (cases "attempt_body e endpoint prompt maxRetries attempt lastResponse sa") auto
  have s1: "useMockData s1"
    using attempt_body_keeps_mock [of s e endpoint prompt maxRetries attempt lastResponse aborted]
      "1.prems" sa body by simp
  show ?case
  proof (cases "maxRetries < attempt")
    case True
    then show ?thesis using "1.prems" by (subst retry_from_unfold) simp
  next
    case False
    show ?thesis
    proof (cases x)
      case (Return r)
      then show ?thesis using False body s1 by (subst retry_from_unfold) simp
    next
      case (Throw err)
      then show ?thesis using False body s1 by (subst retry_from_unfold) simp
    next
      case (Continue lastResponse')
      have "useMockData (fst (snd (retry_from e endpoint prompt maxRetries (Suc attempt)
                                    lastResponse' (s1, aborted1))))"
        using "1.IH" [OF False body [symmetric] Continue] s1 by simp
      then show ?thesis using False body Continue by (subst retry_from_unfold) simp
    qed
  qed
qed

lemma makeRequestWithRetry_keeps_mock:
  "useMockData (fst sa) \<Longrightarrow>
   useMockData (fst (snd (makeRequestWithRetry e endpoint prompt maxRetries sa)))"
  using retry_from_keeps_mock [of sa e endpoint prompt maxRetries 0 None]
  by (simp add: makeRequestWithRetry_def)

lemma try_endpoints_keeps_mock:
  "useMockData (fst sa) \<Longrightarrow>
   useMockData (fst (snd (try_endpoints e prompt eps response lastError sa)))"
proof (induction eps arbitrary: response lastError sa)
  case Nil
  then show ?case by simp
next
  case (Cons endpoint rest)
  obtain r sa' where m: "makeRequestWithRetry e endpoint prompt 2 sa = (r, sa')"
    by (cases "makeRequestWithRetry e endpoint prompt 2 sa")
  have k: "useMockData (fst sa')"
    using makeRequestWithRetry_keeps_mock [of sa e endpoint prompt 2] Cons.prems m by simp
  show ?case
    using m k Cons.IH [of sa']
    by (auto split: sum.splits option.splits)
qed

lemma makeApiRequest_try_keeps_mock:
  "useMockData s \<Longrightarrow> useMockData (snd (makeApiRequest_try e prompt s))"
proof -
  assume s: "useMockData s"
  obtain x s' aborted where t: "try_endpoints e prompt endpoints None [] (s, False) = (x, s', aborted)"
    by (cases "try_endpoints e prompt endpoints None [] (s, False)") auto
  have "useMockData s'"
    using try_endpoints_keeps_mock [of "(s, False)" e prompt endpoints None "[]"] s t by simp
  then show ?thesis
    using s t
    by (auto simp: makeApiRequest_try_def forceMockMode_def
        split: endpoints_exit.splits sum.splits)
qed

lemma after_step_keeps_mock:
  "useMockData s \<Longrightarrow> useMockData (after_step step s)"
  using mock_perform attempt_body_keeps_mock makeApiRequest_try_keeps_mock
  by (cases step) (simp_all add: forceMockMode_def)

lemma lifetime_keeps_mock:
  "useMockData s \<Longrightarrow> useMockData (lifetime events s)"
  by (induction events arbitrary: s) (simp_all add: after_step_keeps_mock)

lemma run_keeps_mock:
  "useMockData s \<Longrightarrow> useMockData (run steps s) \<and> fetchLog (run steps s) = fetchLog s"
proof (induction steps arbitrary: s)
  case Nil
  then show ?case by simp
next
  case (Cons step steps)
  obtain e operation where step: "step = (e, operation)" by (cases step)
  from Cons.prems have "useMockData (perform e operation s)"
    and "fetchLog (perform e operation s) = fetchLog s"
    using mock_perform by blast+
  with Cons.IH [of "perform e operation s"] step show ?case by simp
qed

lemma turns_keeps_mock:
  "useMockData s \<Longrightarrow> useMockData (turns e ts s)"
  by (induction ts arbitrary: s) (simp_all add: take_turn_def attempt_body_keeps_mock)

text \<open>
  C2, as the code has it. Mock mode is one-directional, and an operation that starts in
  mock mode stays off the network. From a state in which \<open>useMockData\<close> is true:
  after any sequence of public operations (and of the constructor's connection test), each
  run from its start to its end in any surroundings, \<open>useMockData\<close> is still true and
  the list of issued requests is what it was, so no operation has called \<open>fetch\<close>; and
  after any sequence of steps of the lifetime of the instance, requests in flight
  included, \<open>useMockData\<close> is still true. The steps are the operations run whole, the
  requests that have passed the guard of \<open>makeApiRequest\<close> and run on to their end, the
  single turns of the retry loop of a request in flight (with its signal fired or not, in
  any order with the turns of other requests), the write after the loop over the
  endpoints and the write of the failed connection test: no code that writes to the
  instance sets the flag back to false.
\<close>

theorem mock_mode_is_permanent_and_offline:
  "useMockData s \<Longrightarrow>
   useMockData (run steps s) \<and> fetchLog (run steps s) = fetchLog s
   \<and> useMockData (lifetime events s)
   \<and> useMockData (turns e ts s)"
  using run_keeps_mock [of s steps] lifetime_keeps_mock [of s events] turns_keeps_mock [of s e ts]
  by simp

text \<open>
  The steps of a request in flight do call \<open>fetch\<close> in mock mode; what they leave alone
  is the flag.
\<close>

lemma sample_lifetime:
  "length (fetchLog (lifetime
            [LoopTurn (rate_limited_for 6) (turn_of ''B'' 2) False,
             RequestPastGuard first_endpoint_down ''p'',
             Operation development (EnhanceSearchQuery ''tv''),
             RateLimitNoted development,
             ProbeFailed] mock_service)) = 2"
  "length (fetchLog (turns (rate_limited_for 6) [turn_of ''B'' 1, turn_of ''B'' 2] mock_service)) = 2"
  by code_simp+

theorem mock_mode_is_permanent_and_offline_witness:
  "useMockData mock_service
   \<and> useMockData (run
            [(model_says ''{}'', EnhanceSearchQuery ''tv''),
             (model_says ''{}'', MakeApiRequest ''hello''),
             (model_says ''{}'', ConnectionTest),
             (model_says ''{}'', GetPersonalizedRecommendations ''tv'' [])] mock_service)
   \<and> fetchLog (run
            [(model_says ''{}'', EnhanceSearchQuery ''tv''),
             (model_says ''{}'', MakeApiRequest ''hello''),
             (model_says ''{}'', ConnectionTest),
             (model_says ''{}'', GetPersonalizedRecommendations ''tv'' [])] mock_service) = []
   \<and> useMockData (lifetime
            [LoopTurn (rate_limited_for 6) (turn_of ''B'' 2) False,
             RequestPastGuard first_endpoint_down ''p'',
             Operation development (EnhanceSearchQuery ''tv''),
             RateLimitNoted development,
             ProbeFailed] mock_service)
   \<and> length (fetchLog (lifetime
            [LoopTurn (rate_limited_for 6) (turn_of ''B'' 2) False,
             RequestPastGuard first_endpoint_down ''p'',
             Operation development (EnhanceSearchQuery ''tv''),
             RateLimitNoted development,
             ProbeFailed] mock_service)) = 2
   \<and> useMockData (turns (rate_limited_for 6) [turn_of ''B'' 1, turn_of ''B'' 2] mock_service)
   \<and> length (fetchLog (turns (rate_limited_for 6) [turn_of ''B'' 1, turn_of ''B'' 2] mock_service)) = 2"
proof -
  have m: "useMockData mock_service"
    by (simp add: mock_service_def)
  have l: "fetchLog mock_service = []"
    by (simp add: mock_service_def live_service_def)
  show ?thesis
    using mock_mode_is_permanent_and_offline [OF m,
        of "[(model_says ''{}'', EnhanceSearchQuery ''tv''),
             (model_says ''{}'', MakeApiRequest ''hello''),
             (model_says ''{}'', ConnectionTest),
             (model_says ''{}'', GetPersonalizedRecommendations ''tv'' [])]"
           "[LoopTurn (rate_limited_for 6) (turn_of ''B'' 2) False,
             RequestPastGuard first_endpoint_down ''p'',
             Operation development (EnhanceSearchQuery ''tv''),
             RateLimitNoted development,
             ProbeFailed]"
           "rate_limited_for 6" "[turn_of ''B'' 1, turn_of ''B'' 2]"]
      m l sample_lifetime
    by (simp only: simp_thms)
qed

text \<open>
  The claim as written fails for a request that is in flight when the flag turns true:
  the flag is read once, when an operation starts. Two requests \<open>A\<close> and \<open>B\<close> start
  while \<open>useMockData\<close> is false and are answered 429 every time. When the third attempt
  of \<open>A\<close> has turned mock mode on, the third attempt of \<open>B\<close> still calls \<open>fetch\<close>.
\<close>

theorem request_in_flight_keeps_fetching:
  "\<not> useMockData live_service
   \<and> \<not> useMockData (turns (rate_limited_for 6)
          [turn_of ''A'' 0, turn_of ''B'' 0, turn_of ''A'' 1, turn_of ''B'' 1] live_service)
   \<and> useMockData (turns (rate_limited_for 6)
          [turn_of ''A'' 0, turn_of ''B'' 0, turn_of ''A'' 1, turn_of ''B'' 1, turn_of ''A'' 2]
          live_service)
   \<and> fetchLog (turns (rate_limited_for 6)
          [turn_of ''A'' 0, turn_of ''B'' 0, turn_of ''A'' 1, turn_of ''B'' 1, turn_of ''A'' 2,
           turn_of ''B'' 2] live_service)
     = fetchLog (turns (rate_limited_for 6)
          [turn_of ''A'' 0, turn_of ''B'' 0, turn_of ''A'' 1, turn_of ''B'' 1, turn_of ''A'' 2]
          live_service)
       @ [(endpoints ! 0 @ ''?key='' @ apiKey live_service, ''B'')]"
  by code_simp

section \<open>The four operations of the facade\<close>

lemma shaped_ProductCategory: "isProductCategory (json_of_ProductCategory c)"
  by (cases "subcategory c")
     (simp_all add: isProductCategory_def json_of_ProductCategory_def isStringField_def
        isNumberField_def)

lemma shaped_MarketAnalysis: "isMarketAnalysis (json_of_MarketAnalysis m)"
  by (cases "marketTrend m")
     (simp_all add: isMarketAnalysis_def json_of_MarketAnalysis_def isStringField_def
        json_of_trend_def isArrayOf_def isString_def list_all_iff)

lemma shaped_ProductRecommendation: "isProductRecommendation (json_of_ProductRecommendation r)"
  by (simp add: isProductRecommendation_def json_of_ProductRecommendation_def isStringField_def
      isNumberField_def)

lemma shaped_SmartSearchResult: "isSmartSearchResult (json_of_SmartSearchResult r)"
  by (simp add: isSmartSearchResult_def json_of_SmartSearchResult_def isStringField_def
      isArrayOf_def isString_def list_all_iff shaped_ProductCategory shaped_MarketAnalysis
      shaped_ProductRecommendation)

lemma truthy_SmartSearchResult: "truthy (Some (json_of_SmartSearchResult r))"
  by (simp add: json_of_SmartSearchResult_def)

lemma truthy_MarketAnalysis: "truthy (Some (json_of_MarketAnalysis m))"
  by (simp add: json_of_MarketAnalysis_def)

lemma isMockResult_True: "isMockResult response = Inr True \<Longrightarrow> truthy (Some response)"
  by (cases response) (simp_all add: isMockResult_def)

lemma enhanceSearchQuery_total:
  "\<exists>v s'. enhanceSearchQuery e query s = (Inr v, s') \<and> truthy (Some v)
     \<and> (v = json_of_SmartSearchResult (generateMockSmartSearchResult e query)
        \<or> (\<not> envPROD e \<and> \<not> useMockData s
            \<and> (\<exists>response. makeApiRequest e (enhanceSearchQuery_prompt query) s = (Inr response, s')
                  \<and> (v = response \<and> isMockResult response = Inr True
                      \<or> v = safeJsonParse_value e response))))"
proof -
  let ?mock = "json_of_SmartSearchResult (generateMockSmartSearchResult e query)"
  show ?thesis
  proof (cases "envPROD e \<or> useMockData s")
    case True
    then show ?thesis
      by (auto simp: enhanceSearchQuery_def enhanceSearchQuery_try_def truthy_SmartSearchResult)
  next
    case False
    obtain res s' where req: "makeApiRequest e (enhanceSearchQuery_prompt query) s = (res, s')"
      by (cases "makeApiRequest e (enhanceSearchQuery_prompt query) s")
    show ?thesis
    proof (cases res)
      case (Inl err)
      with False req show ?thesis
        by (simp add: enhanceSearchQuery_def enhanceSearchQuery_try_def truthy_SmartSearchResult)
    next
      case (Inr response)
      show ?thesis
      proof (cases "isMockResult response")
        case (Inl err)
        with False req \<open>res = Inr response\<close> show ?thesis
          by (simp add: enhanceSearchQuery_def enhanceSearchQuery_try_def truthy_SmartSearchResult)
      next
        case isInr: (Inr b)
        show ?thesis
        proof (cases b)
          case True
          with False req \<open>res = Inr response\<close> isInr isMockResult_True [of response] show ?thesis
            by (simp add: enhanceSearchQuery_def enhanceSearchQuery_try_def)
        next
          case notMock: False
          with False req \<open>res = Inr response\<close> isInr show ?thesis
            by (simp add: enhanceSearchQuery_def enhanceSearchQuery_try_def Let_def
                truthy_SmartSearchResult)
        qed
      qed
    qed
  qed
qed

lemma request_or_mock_total:
  assumes "truthy (Some mock)"
  shows "\<exists>v s'. or_mock (request_or_mock e prompt mock s) mock = (Inr v, s') \<and> truthy (Some v)
     \<and> (v = mock
        \<or> (\<not> envPROD e \<and> \<not> useMockData s
            \<and> (\<exists>response. makeApiRequest e prompt s = (Inr response, s')
                  \<and> v = safeJsonParse_value e response)))"
proof (cases "envPROD e \<or> useMockData s")
  case True
  then show ?thesis using assms by (auto simp: request_or_mock_def or_mock_def)
next
  case False
  obtain res s' where req: "makeApiRequest e prompt s = (res, s')"
    by (cases "makeApiRequest e prompt s")
  show ?thesis
  proof (cases res)
    case (Inl err)
    with False req assms show ?thesis by (simp add: request_or_mock_def or_mock_def)
  next
    case (Inr response)
    with False req assms show ?thesis by (simp add: request_or_mock_def or_mock_def Let_def)
  qed
qed

lemma truthy_not_null: "truthy x \<Longrightarrow> the x \<noteq> JNull"
  by (cases x rule: truthy.cases) auto

lemma response_text_not_null: "response_text data = Inr v \<Longrightarrow> v \<noteq> JNull"
  unfolding response_text_def
  using truthy_not_null
  by (auto split: sum.splits if_splits)

lemma makeApiRequest_not_null:
  assumes "makeApiRequest e prompt s = (Inr v, s')"
  shows "v \<noteq> JNull"
proof (cases "envPROD e \<or> useMockData s")
  case True
  then have "v = mockForPrompt e prompt"
    using assms by (auto simp: makeApiRequest_def split: if_splits)
  then show ?thesis
    by (simp add: mockForPrompt_def json_of_SmartSearchResult_def)
next
  case False
  obtain x s1 aborted where t: "try_endpoints e prompt endpoints None [] (s, False) = (x, s1, aborted)"
    by (cases "try_endpoints e prompt endpoints None [] (s, False)") auto
  show ?thesis
  proof (cases x)
    case (Returned w)
    then have "w = JStr (generateMockResponse e prompt)"
      using try_endpoints_Returned [of e prompt endpoints None "[]" "(s, False)" w "(s1, aborted)"] t
      by simp
    then show ?thesis
      using assms False t Returned
      by (auto simp: makeApiRequest_def makeApiRequest_try_def split: if_splits)
  next
    case (Thrown err)
    then show ?thesis
      using assms False t by (auto simp: makeApiRequest_def makeApiRequest_try_def split: if_splits)
  next
    case (Completed response lastError)
    then show ?thesis
      using assms False t response_text_not_null
      by (auto simp: makeApiRequest_def makeApiRequest_try_def split: if_splits sum.splits)
  qed
qed

lemma isMockResult_cases:
  "v \<noteq> JNull \<Longrightarrow> isMockResult v \<noteq> Inr True \<Longrightarrow> isMockResult v = Inr False"
  by (cases v) (simp_all add: isMockResult_def)

lemma enhanceSearchQuery_cases:
  "(envPROD e \<or> useMockData s
      \<longrightarrow> enhanceSearchQuery e query s =
            (Inr (json_of_SmartSearchResult (generateMockSmartSearchResult e query)), s))
   \<and> (\<not> envPROD e \<and> \<not> useMockData s
       \<and> makeApiRequest e (enhanceSearchQuery_prompt query) s = (Inl err, s')
      \<longrightarrow> enhanceSearchQuery e query s =
            (Inr (json_of_SmartSearchResult (generateMockSmartSearchResult e query)), s'))
   \<and> (\<not> envPROD e \<and> \<not> useMockData s
       \<and> makeApiRequest e (enhanceSearchQuery_prompt query) s = (Inr response, s')
       \<and> isMockResult response = Inr True
      \<longrightarrow> enhanceSearchQuery e query s = (Inr response, s'))
   \<and> (\<not> envPROD e \<and> \<not> useMockData s
       \<and> makeApiRequest e (enhanceSearchQuery_prompt query) s = (Inr response, s')
       \<and> isMockResult response \<noteq> Inr True
       \<and> truthy (Some (safeJsonParse_value e response))
      \<longrightarrow> enhanceSearchQuery e query s = (Inr (safeJsonParse_value e response), s'))
   \<and> (\<not> envPROD e \<and> \<not> useMockData s
       \<and> makeApiRequest e (enhanceSearchQuery_prompt query) s = (Inr response, s')
       \<and> isMockResult response \<noteq> Inr True
       \<and> \<not> truthy (Some (safeJsonParse_value e response))
      \<longrightarrow> enhanceSearchQuery e query s =
            (Inr (json_of_SmartSearchResult (generateMockSmartSearchResult e query)), s'))"
  using makeApiRequest_not_null [of e "enhanceSearchQuery_prompt query" s response s']
    isMockResult_cases [of response]
  by (auto simp: enhanceSearchQuery_def enhanceSearchQuery_try_def Let_def)

lemma request_or_mock_cases:
  "(envPROD e \<or> useMockData s
      \<longrightarrow> or_mock (request_or_mock e prompt mock s) mock = (Inr mock, s))
   \<and> (\<not> envPROD e \<and> \<not> useMockData s \<and> makeApiRequest e prompt s = (Inl err, s')
      \<longrightarrow> or_mock (request_or_mock e prompt mock s) mock = (Inr mock, s'))
   \<and> (\<not> envPROD e \<and> \<not> useMockData s \<and> makeApiRequest e prompt s = (Inr response, s')
       \<and> truthy (Some (safeJsonParse_value e response))
      \<longrightarrow> or_mock (request_or_mock e prompt mock s) mock =
            (Inr (safeJsonParse_value e response), s'))
   \<and> (\<not> envPROD e \<and> \<not> useMockData s \<and> makeApiRequest e prompt s = (Inr response, s')
       \<and> \<not> truthy (Some (safeJsonParse_value e response))
      \<longrightarrow> or_mock (request_or_mock e prompt mock s) mock = (Inr mock, s'))"
  by (auto simp: request_or_mock_def or_mock_def Let_def)

lemma offline_request:
  "\<not> envPROD e \<Longrightarrow> \<not> useMockData s \<Longrightarrow> \<not> onLine e \<Longrightarrow>
   makeApiRequest e prompt s =
     (Inl (JsError ''Error'' ''No internet connection. Please check your network.''), s)"
  by (simp add: makeApiRequest_def makeApiRequest_try_def classify_error_def)

lemma response_text_envelope: "out \<noteq> [] \<Longrightarrow> response_text (envelope out) = Inr (JStr out)"
  by (simp add: response_text_def envelope_def nth_opt_def)

lemma model_says_request:
  assumes "\<not> useMockData s" "out \<noteq> []"
  shows "makeApiRequest (model_says out) prompt s =
           (Inr (JStr out),
            s\<lparr>fetchLog := fetchLog s @ [(endpoints ! 0 @ ''?key='' @ apiKey s, prompt)]\<rparr>)"
proof -
  let ?e = "model_says out"
  let ?s1 = "s\<lparr>fetchLog := fetchLog s @ [(endpoints ! 0 @ ''?key='' @ apiKey s, prompt)]\<rparr>"
  have e: "\<not> envPROD ?e" "onLine ?e" "fetchOutcome ?e (length (fetchLog s)) = Responds (success_with out)"
    by (simp_all add: model_says_def development_def)
  have r: "status (success_with out) \<noteq> 429" "ok (success_with out)"
    "json_body (success_with out) = Inr (envelope out)"
    by (simp_all add: success_with_def http_response_def ok_def)
  have 1: "makeRequestWithRetry ?e (endpoints ! 0) prompt 2 (s, False) =
             (Inr (Some (success_with out)), ?s1, False)"
    using retry_returns_response [OF e(1) e(3) r(1), of "endpoints ! 0" prompt 2] .
  have eps: "endpoints = endpoints ! 0 # tl endpoints"
    by (simp add: endpoints_def)
  have "try_endpoints ?e prompt endpoints None [] (s, False) =
          (Completed (Some (success_with out)) [], ?s1, False)"
    by (subst eps) (use 1 r(2) in simp)
  then show ?thesis
    using assms e r response_text_envelope [of out]
    by (simp add: makeApiRequest_def makeApiRequest_try_def)
qed

lemma facade_cases:
  "((envPROD e \<or> useMockData s
        \<longrightarrow> enhanceSearchQuery e query s = (Inr (json_of_SmartSearchResult (generateMockSmartSearchResult e query)), s))
     \<and> (\<not> envPROD e \<and> \<not> useMockData s
         \<and> makeApiRequest e (enhanceSearchQuery_prompt query) s = (Inl err, s')
        \<longrightarrow> enhanceSearchQuery e query s = (Inr (json_of_SmartSearchResult (generateMockSmartSearchResult e query)), s'))
     \<and> (\<not> envPROD e \<and> \<not> useMockData s
         \<and> makeApiRequest e (enhanceSearchQuery_prompt query) s = (Inr response, s')
         \<and> isMockResult response = Inr True
        \<longrightarrow> enhanceSearchQuery e query s = (Inr response, s'))
     \<and> (\<not> envPROD e \<and> \<not> useMockData s
         \<and> makeApiRequest e (enhanceSearchQuery_prompt query) s = (Inr response, s')
         \<and> isMockResult response \<noteq> Inr True
         \<and> truthy (Some (safeJsonParse_value e response))
        \<longrightarrow> enhanceSearchQuery e query s = (Inr (safeJsonParse_value e response), s'))
     \<and> (\<not> envPROD e \<and> \<not> useMockData s
         \<and> makeApiRequest e (enhanceSearchQuery_prompt query) s = (Inr response, s')
         \<and> isMockResult response \<noteq> Inr True
         \<and> \<not> truthy (Some (safeJsonParse_value e response))
        \<longrightarrow> enhanceSearchQuery e query s = (Inr (json_of_SmartSearchResult (generateMockSmartSearchResult e query)), s')))
   \<and> ((envPROD e \<or> useMockData s
        \<longrightarrow> categorizeProducts e products s = (Inr (JArr (map json_of_ProductCategory generateMockCategories)), s))
     \<and> (\<not> envPROD e \<and> \<not> useMockData s
         \<and> makeApiRequest e (categorizeProducts_prompt (join '', '' (map title products))) s = (Inl err, s')
        \<longrightarrow> categorizeProducts e products s = (Inr (JArr (map json_of_ProductCategory generateMockCategories)), s'))
     \<and> (\<not> envPROD e \<and> \<not> useMockData s
         \<and> makeApiRequest e (categorizeProducts_prompt (join '', '' (map title products))) s = (Inr response, s')
         \<and> truthy (Some (safeJsonParse_value e response))
        \<longrightarrow> categorizeProducts e products s = (Inr (safeJsonParse_value e response), s'))
     \<and> (\<not> envPROD e \<and> \<not> useMockData s
         \<and> makeApiRequest e (categorizeProducts_prompt (join '', '' (map title products))) s = (Inr response, s')
         \<and> \<not> truthy (Some (safeJsonParse_value e response))
        \<longrightarrow> categorizeProducts e products s = (Inr (JArr (map json_of_ProductCategory generateMockCategories)), s')))
   \<and> ((envPROD e \<or> useMockData s
        \<longrightarrow> analyzeMarketTrends e query products s = (Inr (json_of_MarketAnalysis (generateMockMarketAnalysis e)), s))
     \<and> (\<not> envPROD e \<and> \<not> useMockData s
         \<and> makeApiRequest e (analyzeMarketTrends_prompt query (join '', '' (map price products))) s = (Inl err, s')
        \<longrightarrow> analyzeMarketTrends e query products s = (Inr (json_of_MarketAnalysis (generateMockMarketAnalysis e)), s'))
     \<and> (\<not> envPROD e \<and> \<not> useMockData s
         \<and> makeApiRequest e (analyzeMarketTrends_prompt query (join '', '' (map price products))) s = (Inr response, s')
         \<and> truthy (Some (safeJsonParse_value e response))
        \<longrightarrow> analyzeMarketTrends e query products s = (Inr (safeJsonParse_value e response), s'))
     \<and> (\<not> envPROD e \<and> \<not> useMockData s
         \<and> makeApiRequest e (analyzeMarketTrends_prompt query (join '', '' (map price products))) s = (Inr response, s')
         \<and> \<not> truthy (Some (safeJsonParse_value e response))
        \<longrightarrow> analyzeMarketTrends e query products s = (Inr (json_of_MarketAnalysis (generateMockMarketAnalysis e)), s')))
   \<and> ((envPROD e \<or> useMockData s
        \<longrightarrow> getPersonalizedRecommendations e query history s = (Inr (JArr (map json_of_ProductRecommendation generateMockRecommendations)), s))
     \<and> (\<not> envPROD e \<and> \<not> useMockData s
         \<and> makeApiRequest e (getPersonalizedRecommendations_prompt query (join '', '' history)) s = (Inl err, s')
        \<longrightarrow> getPersonalizedRecommendations e query history s = (Inr (JArr (map json_of_ProductRecommendation generateMockRecommendations)), s'))
     \<and> (\<not> envPROD e \<and> \<not> useMockData s
         \<and> makeApiRequest e (getPersonalizedRecommendations_prompt query (join '', '' history)) s = (Inr response, s')
         \<and> truthy (Some (safeJsonParse_value e response))
        \<longrightarrow> getPersonalizedRecommendations e query history s = (Inr (safeJsonParse_value e response), s'))
     \<and> (\<not> envPROD e \<and> \<not> useMockData s
         \<and> makeApiRequest e (getPersonalizedRecommendations_prompt query (join '', '' history)) s = (Inr response, s')
         \<and> \<not> truthy (Some (safeJsonParse_value e response))
        \<longrightarrow> getPersonalizedRecommendations e query history s = (Inr (JArr (map json_of_ProductRecommendation generateMockRecommendations)), s')))"
proof -
  have 1: "(envPROD e \<or> useMockData s
        \<longrightarrow> enhanceSearchQuery e query s = (Inr (json_of_SmartSearchResult (generateMockSmartSearchResult e query)), s))
     \<and> (\<not> envPROD e \<and> \<not> useMockData s
         \<and> makeApiRequest e (enhanceSearchQuery_prompt query) s = (Inl err, s')
        \<longrightarrow> enhanceSearchQuery e query s = (Inr (json_of_SmartSearchResult (generateMockSmartSearchResult e query)), s'))
     \<and> (\<not> envPROD e \<and> \<not> useMockData s
         \<and> makeApiRequest e (enhanceSearchQuery_prompt query) s = (Inr response, s')
         \<and> isMockResult response = Inr True
        \<longrightarrow> enhanceSearchQuery e query s = (Inr response, s'))
     \<and> (\<not> envPROD e \<and> \<not> useMockData s
         \<and> makeApiRequest e (enhanceSearchQuery_prompt query) s = (Inr response, s')
         \<and> isMockResult response \<noteq> Inr True
         \<and> truthy (Some (safeJsonParse_value e response))
        \<longrightarrow> enhanceSearchQuery e query s = (Inr (safeJsonParse_value e response), s'))
     \<and> (\<not> envPROD e \<and> \<not> useMockData s
         \<and> makeApiRequest e (enhanceSearchQuery_prompt query) s = (Inr response, s')
         \<and> isMockResult response \<noteq> Inr True
         \<and> \<not> truthy (Some (safeJsonParse_value e response))
        \<longrightarrow> enhanceSearchQuery e query s = (Inr (json_of_SmartSearchResult (generateMockSmartSearchResult e query)), s'))"
    by (rule enhanceSearchQuery_cases)
  have 2: "(envPROD e \<or> useMockData s
        \<longrightarrow> categorizeProducts e products s = (Inr (JArr (map json_of_ProductCategory generateMockCategories)), s))
     \<and> (\<not> envPROD e \<and> \<not> useMockData s
         \<and> makeApiRequest e (categorizeProducts_prompt (join '', '' (map title products))) s = (Inl err, s')
        \<longrightarrow> categorizeProducts e products s = (Inr (JArr (map json_of_ProductCategory generateMockCategories)), s'))
     \<and> (\<not> envPROD e \<and> \<not> useMockData s
         \<and> makeApiRequest e (categorizeProducts_prompt (join '', '' (map title products))) s = (Inr response, s')
         \<and> truthy (Some (safeJsonParse_value e response))
        \<longrightarrow> categorizeProducts e products s = (Inr (safeJsonParse_value e response), s'))
     \<and> (\<not> envPROD e \<and> \<not> useMockData s
         \<and> makeApiRequest e (categorizeProducts_prompt (join '', '' (map title products))) s = (Inr response, s')
         \<and> \<not> truthy (Some (safeJsonParse_value e response))
        \<longrightarrow> categorizeProducts e products s = (Inr (JArr (map json_of_ProductCategory generateMockCategories)), s'))"
    unfolding categorizeProducts_def by (rule request_or_mock_cases)
  have 3: "(envPROD e \<or> useMockData s
        \<longrightarrow> analyzeMarketTrends e query products s = (Inr (json_of_MarketAnalysis (generateMockMarketAnalysis e)), s))
     \<and> (\<not> envPROD e \<and> \<not> useMockData s
         \<and> makeApiRequest e (analyzeMarketTrends_prompt query (join '', '' (map price products))) s = (Inl err, s')
        \<longrightarrow> analyzeMarketTrends e query products s = (Inr (json_of_MarketAnalysis (generateMockMarketAnalysis e)), s'))
     \<and> (\<not> envPROD e \<and> \<not> useMockData s
         \<and> makeApiRequest e (analyzeMarketTrends_prompt query (join '', '' (map price products))) s = (Inr response, s')
         \<and> truthy (Some (safeJsonParse_value e response))
        \<longrightarrow> analyzeMarketTrends e query products s = (Inr (safeJsonParse_value e response), s'))
     \<and> (\<not> envPROD e \<and> \<not> useMockData s
         \<and> makeApiRequest e (analyzeMarketTrends_prompt query (join '', '' (map price products))) s = (Inr response, s')
         \<and> \<not> truthy (Some (safeJsonParse_value e response))
        \<longrightarrow> analyzeMarketTrends e query products s = (Inr (json_of_MarketAnalysis (generateMockMarketAnalysis e)), s'))"
    unfolding analyzeMarketTrends_def by (rule request_or_mock_cases)
  have 4: "(envPROD e \<or> useMockData s
        \<longrightarrow> getPersonalizedRecommendations e query history s = (Inr (JArr (map json_of_ProductRecommendation generateMockRecommendations)), s))
     \<and> (\<not> envPROD e \<and> \<not> useMockData s
         \<and> makeApiRequest e (getPersonalizedRecommendations_prompt query (join '', '' history)) s = (Inl err, s')
        \<longrightarrow> getPersonalizedRecommendations e query history s = (Inr (JArr (map json_of_ProductRecommendation generateMockRecommendations)), s'))
     \<and> (\<not> envPROD e \<and> \<not> useMockData s
         \<and> makeApiRequest e (getPersonalizedRecommendations_prompt query (join '', '' history)) s = (Inr response, s')
         \<and> truthy (Some (safeJsonParse_value e response))
        \<longrightarrow> getPersonalizedRecommendations e query history s = (Inr (safeJsonParse_value e response), s'))
     \<and> (\<not> envPROD e \<and> \<not> useMockData s
         \<and> makeApiRequest e (getPersonalizedRecommendations_prompt query (join '', '' history)) s = (Inr response, s')
         \<and> \<not> truthy (Some (safeJsonParse_value e response))
        \<longrightarrow> getPersonalizedRecommendations e query history s = (Inr (JArr (map json_of_ProductRecommendation generateMockRecommendations)), s'))"
    unfolding getPersonalizedRecommendations_def by (rule request_or_mock_cases)
  show ?thesis
    by (rule conjI [OF 1 conjI [OF 2 conjI [OF 3 4]]])
qed

lemma facade_total:
  "(\<exists>v s'. enhanceSearchQuery e query s = (Inr v, s') \<and> truthy (Some v)
      \<and> (v = json_of_SmartSearchResult (generateMockSmartSearchResult e query)
         \<or> (\<not> envPROD e \<and> \<not> useMockData s
             \<and> (\<exists>response. makeApiRequest e (enhanceSearchQuery_prompt query) s = (Inr response, s')
                   \<and> (v = response \<and> isMockResult response = Inr True
                       \<or> v = safeJsonParse_value e response)))))
   \<and> (\<exists>v s'. categorizeProducts e products s = (Inr v, s') \<and> truthy (Some v)
      \<and> (v = JArr (map json_of_ProductCategory generateMockCategories)
         \<or> (\<not> envPROD e \<and> \<not> useMockData s
             \<and> (\<exists>response. makeApiRequest e
                     (categorizeProducts_prompt (join '', '' (map title products))) s
                     = (Inr response, s')
                   \<and> v = safeJsonParse_value e response))))
   \<and> (\<exists>v s'. analyzeMarketTrends e query products s = (Inr v, s') \<and> truthy (Some v)
      \<and> (v = json_of_MarketAnalysis (generateMockMarketAnalysis e)
         \<or> (\<not> envPROD e \<and> \<not> useMockData s
             \<and> (\<exists>response. makeApiRequest e
                     (analyzeMarketTrends_prompt query (join '', '' (map price products))) s
                     = (Inr response, s')
                   \<and> v = safeJsonParse_value e response))))
   \<and> (\<exists>v s'. getPersonalizedRecommendations e query history s = (Inr v, s') \<and> truthy (Some v)
      \<and> (v = JArr (map json_of_ProductRecommendation generateMockRecommendations)
         \<or> (\<not> envPROD e \<and> \<not> useMockData s
             \<and> (\<exists>response. makeApiRequest e
                     (getPersonalizedRecommendations_prompt query (join '', '' history)) s
                     = (Inr response, s')
                   \<and> v = safeJsonParse_value e response))))
   \<and> isSmartSearchResult (json_of_SmartSearchResult (generateMockSmartSearchResult e query))
   \<and> isArrayOf isProductCategory (Some (JArr (map json_of_ProductCategory generateMockCategories)))
   \<and> isMarketAnalysis (json_of_MarketAnalysis (generateMockMarketAnalysis e))
   \<and> isArrayOf isProductRecommendation
       (Some (JArr (map json_of_ProductRecommendation generateMockRecommendations)))"
proof -
  have 1: "isArrayOf isProductCategory (Some (JArr (map json_of_ProductCategory xs)))" for xs
    by (simp add: isArrayOf_def list_all_iff shaped_ProductCategory)
  have 2: "isArrayOf isProductRecommendation (Some (JArr (map json_of_ProductRecommendation xs)))" for xs
    by (simp add: isArrayOf_def list_all_iff shaped_ProductRecommendation)
  show ?thesis
    unfolding categorizeProducts_def analyzeMarketTrends_def getPersonalizedRecommendations_def
    using enhanceSearchQuery_total [of e query s]
      request_or_mock_total [of "JArr (map json_of_ProductCategory generateMockCategories)" e
        "categorizeProducts_prompt (join '', '' (map title products))" s]
      request_or_mock_total [of "json_of_MarketAnalysis (generateMockMarketAnalysis e)" e
        "analyzeMarketTrends_prompt query (join '', '' (map price products))" s]
      request_or_mock_total [of "JArr (map json_of_ProductRecommendation generateMockRecommendations)" e
        "getPersonalizedRecommendations_prompt query (join '', '' history)" s]
      shaped_SmartSearchResult shaped_MarketAnalysis truthy_MarketAnalysis 1 2
    by simp
qed

text \<open>
  C1, as the code has it. Each of the four operations returns, never throws, and what it
  returns is truthy, hence not \<open>null\<close>. Which value it is, is settled case by case.
  In a production build and in mock mode it is the Mock Synthesis result of the operation,
  which has the declared shape, and the instance is left as it was. Otherwise the request
  is made. When the request fails (\<open>makeApiRequest\<close> throws, for the network, the
  timeout, the envelope), it is the Mock Synthesis result. When the request returns and
  Response Recovery makes a truthy value of what it returned, it is that value, passed on
  as it is, with no check of its shape. When Response Recovery yields \<open>null\<close> or
  another falsy value, it is the Mock Synthesis result. \<open>enhanceSearchQuery\<close> has one
  case more, which it tests before Response Recovery: when the request returns an object
  with a truthy \<open>enhancedQuery\<close>, it is that object, passed on as it is.
\<close>

theorem facade_returns_mock_or_recovered:
  "((\<exists>v s'. enhanceSearchQuery e query s = (Inr v, s') \<and> truthy (Some v)
      \<and> (v = json_of_SmartSearchResult (generateMockSmartSearchResult e query)
         \<or> (\<not> envPROD e \<and> \<not> useMockData s
             \<and> (\<exists>response. makeApiRequest e (enhanceSearchQuery_prompt query) s = (Inr response, s')
                   \<and> (v = response \<and> isMockResult response = Inr True
                       \<or> v = safeJsonParse_value e response)))))
   \<and> (\<exists>v s'. categorizeProducts e products s = (Inr v, s') \<and> truthy (Some v)
      \<and> (v = JArr (map json_of_ProductCategory generateMockCategories)
         \<or> (\<not> envPROD e \<and> \<not> useMockData s
             \<and> (\<exists>response. makeApiRequest e
                     (categorizeProducts_prompt (join '', '' (map title products))) s
                     = (Inr response, s')
                   \<and> v = safeJsonParse_value e response))))
   \<and> (\<exists>v s'. analyzeMarketTrends e query products s = (Inr v, s') \<and> truthy (Some v)
      \<and> (v = json_of_MarketAnalysis (generateMockMarketAnalysis e)
         \<or> (\<not> envPROD e \<and> \<not> useMockData s
             \<and> (\<exists>response. makeApiRequest e
                     (analyzeMarketTrends_prompt query (join '', '' (map price products))) s
                     = (Inr response, s')
                   \<and> v = safeJsonParse_value e response))))
   \<and> (\<exists>v s'. getPersonalizedRecommendations e query history s = (Inr v, s') \<and> truthy (Some v)
      \<and> (v = JArr (map json_of_ProductRecommendation generateMockRecommendations)
         \<or> (\<not> envPROD e \<and> \<not> useMockData s
             \<and> (\<exists>response. makeApiRequest e
                     (getPersonalizedRecommendations_prompt query (join '', '' history)) s
                     = (Inr response, s')
                   \<and> v = safeJsonParse_value e response))))
   \<and> isSmartSearchResult (json_of_SmartSearchResult (generateMockSmartSearchResult e query))
   \<and> isArrayOf isProductCategory (Some (JArr (map json_of_ProductCategory generateMockCategories)))
   \<and> isMarketAnalysis (json_of_MarketAnalysis (generateMockMarketAnalysis e))
   \<and> isArrayOf isProductRecommendation
       (Some (JArr (map json_of_ProductRecommendation generateMockRecommendations))))
   \<and> ((envPROD e \<or> useMockData s
        \<longrightarrow> enhanceSearchQuery e query s = (Inr (json_of_SmartSearchResult (generateMockSmartSearchResult e query)), s))
     \<and> (\<not> envPROD e \<and> \<not> useMockData s
         \<and> makeApiRequest e (enhanceSearchQuery_prompt query) s = (Inl err, s')
        \<longrightarrow> enhanceSearchQuery e query s = (Inr (json_of_SmartSearchResult (generateMockSmartSearchResult e query)), s'))
     \<and> (\<not> envPROD e \<and> \<not> useMockData s
         \<and> makeApiRequest e (enhanceSearchQuery_prompt query) s = (Inr response, s')
         \<and> isMockResult response = Inr True
        \<longrightarrow> enhanceSearchQuery e query s = (Inr response, s'))
     \<and> (\<not> envPROD e \<and> \<not> useMockData s
         \<and> makeApiRequest e (enhanceSearchQuery_prompt query) s = (Inr response, s')
         \<and> isMockResult response \<noteq> Inr True
         \<and> truthy (Some (safeJsonParse_value e response))
        \<longrightarrow> enhanceSearchQuery e query s = (Inr (safeJsonParse_value e response), s'))
     \<and> (\<not> envPROD e \<and> \<not> useMockData s
         \<and> makeApiRequest e (enhanceSearchQuery_prompt query) s = (Inr response, s')
         \<and> isMockResult response \<noteq> Inr True
         \<and> \<not> truthy (Some (safeJsonParse_value e response))
        \<longrightarrow> enhanceSearchQuery e query s = (Inr (json_of_SmartSearchResult (generateMockSmartSearchResult e query)), s')))
   \<and> ((envPROD e \<or> useMockData s
        \<longrightarrow> categorizeProducts e products s = (Inr (JArr (map json_of_ProductCategory generateMockCategories)), s))
     \<and> (\<not> envPROD e \<and> \<not> useMockData s
         \<and> makeApiRequest e (categorizeProducts_prompt (join '', '' (map title products))) s = (Inl err, s')
        \<longrightarrow> categorizeProducts e products s = (Inr (JArr (map json_of_ProductCategory generateMockCategories)), s'))
     \<and> (\<not> envPROD e \<and> \<not> useMockData s
         \<and> makeApiRequest e (categorizeProducts_prompt (join '', '' (map title products))) s = (Inr response, s')
         \<and> truthy (Some (safeJsonParse_value e response))
        \<longrightarrow> categorizeProducts e products s = (Inr (safeJsonParse_value e response), s'))
     \<and> (\<not> envPROD e \<and> \<not> useMockData s
         \<and> makeApiRequest e (categorizeProducts_prompt (join '', '' (map title products))) s = (Inr response, s')
         \<and> \<not> truthy (Some (safeJsonParse_value e response))
        \<longrightarrow> categorizeProducts e products s = (Inr (JArr (map json_of_ProductCategory generateMockCategories)), s')))
   \<and> ((envPROD e \<or> useMockData s
        \<longrightarrow> analyzeMarketTrends e query products s = (Inr (json_of_MarketAnalysis (generateMockMarketAnalysis e)), s))
     \<and> (\<not> envPROD e \<and> \<not> useMockData s
         \<and> makeApiRequest e (analyzeMarketTrends_prompt query (join '', '' (map price products))) s = (Inl err, s')
        \<longrightarrow> analyzeMarketTrends e query products s = (Inr (json_of_MarketAnalysis (generateMockMarketAnalysis e)), s'))
     \<and> (\<not> envPROD e \<and> \<not> useMockData s
         \<and> makeApiRequest e (analyzeMarketTrends_prompt query (join '', '' (map price products))) s = (Inr response, s')
         \<and> truthy (Some (safeJsonParse_value e response))
        \<longrightarrow> analyzeMarketTrends e query products s = (Inr (safeJsonParse_value e response), s'))
     \<and> (\<not> envPROD e \<and> \<not> useMockData s
         \<and> makeApiRequest e (analyzeMarketTrends_prompt query (join '', '' (map price products))) s = (Inr response, s')
         \<and> \<not> truthy (Some (safeJsonParse_value e response))
        \<longrightarrow> analyzeMarketTrends e query products s = (Inr (json_of_MarketAnalysis (generateMockMarketAnalysis e)), s')))
   \<and> ((envPROD e \<or> useMockData s
        \<longrightarrow> getPersonalizedRecommendations e query history s = (Inr (JArr (map json_of_ProductRecommendation generateMockRecommendations)), s))
     \<and> (\<not> envPROD e \<and> \<not> useMockData s
         \<and> makeApiRequest e (getPersonalizedRecommendations_prompt query (join '', '' history)) s = (Inl err, s')
        \<longrightarrow> getPersonalizedRecommendations e query history s = (Inr (JArr (map json_of_ProductRecommendation generateMockRecommendations)), s'))
     \<and> (\<not> envPROD e \<and> \<not> useMockData s
         \<and> makeApiRequest e (getPersonalizedRecommendations_prompt query (join '', '' history)) s = (Inr response, s')
         \<and> truthy (Some (safeJsonParse_value e response))
        \<longrightarrow> getPersonalizedRecommendations e query history s = (Inr (safeJsonParse_value e response), s'))
     \<and> (\<not> envPROD e \<and> \<not> useMockData s
         \<and> makeApiRequest e (getPersonalizedRecommendations_prompt query (join '', '' history)) s = (Inr response, s')
         \<and> \<not> truthy (Some (safeJsonParse_value e response))
        \<longrightarrow> getPersonalizedRecommendations e query history s = (Inr (JArr (map json_of_ProductRecommendation generateMockRecommendations)), s')))"
  using facade_total [of e query s products history]
    facade_cases [of e s query err s' response products history]
  by (rule conjI)

text \<open>
  Each case is met: mock mode; a browser that is off line; a model output that is a JSON
  object and one that is prose, for each operation; and an envelope whose \<open>text\<close> is an
  object with an \<open>enhancedQuery\<close>.
\<close>

theorem facade_returns_mock_or_recovered_witness:
  "useMockData mock_service
   \<and> \<not> useMockData live_service
   \<and> \<not> envPROD offline
   \<and> \<not> onLine offline
   \<and> safeJsonParse_value (model_says ''{\"a\": 1}'') (JStr ''{\"a\": 1}'') = JObj [(''a'', JNum 1)]
   \<and> safeJsonParse_value (model_says ''I cannot help with that.'') (JStr ''I cannot help with that.'') = JNull
   \<and> fst (makeApiRequest model_returns_object (enhanceSearchQuery_prompt ''tv'') live_service) = Inr (JObj [(''enhancedQuery'', JStr ''tv deals'')])
   \<and> isMockResult (JObj [(''enhancedQuery'', JStr ''tv deals'')]) = Inr True
   \<and> fst (enhanceSearchQuery development ''tv'' mock_service) = Inr (json_of_SmartSearchResult (generateMockSmartSearchResult development ''tv''))
   \<and> fst (categorizeProducts development [] mock_service) = Inr (JArr (map json_of_ProductCategory generateMockCategories))
   \<and> fst (analyzeMarketTrends development ''tv'' [] mock_service) = Inr (json_of_MarketAnalysis (generateMockMarketAnalysis development))
   \<and> fst (getPersonalizedRecommendations development ''tv'' [] mock_service) = Inr (JArr (map json_of_ProductRecommendation generateMockRecommendations))
   \<and> fst (makeApiRequest offline (enhanceSearchQuery_prompt ''tv'') live_service) = Inl (JsError ''Error'' ''No internet connection. Please check your network.'')
   \<and> fst (makeApiRequest offline (categorizeProducts_prompt (join '', '' (map title []))) live_service) = Inl (JsError ''Error'' ''No internet connection. Please check your network.'')
   \<and> fst (makeApiRequest offline (analyzeMarketTrends_prompt ''tv'' (join '', '' (map price []))) live_service) = Inl (JsError ''Error'' ''No internet connection. Please check your network.'')
   \<and> fst (makeApiRequest offline (getPersonalizedRecommendations_prompt ''tv'' (join '', '' [])) live_service) = Inl (JsError ''Error'' ''No internet connection. Please check your network.'')
   \<and> fst (enhanceSearchQuery offline ''tv'' live_service) = Inr (json_of_SmartSearchResult (generateMockSmartSearchResult offline ''tv''))
   \<and> fst (categorizeProducts offline [] live_service) = Inr (JArr (map json_of_ProductCategory generateMockCategories))
   \<and> fst (analyzeMarketTrends offline ''tv'' [] live_service) = Inr (json_of_MarketAnalysis (generateMockMarketAnalysis offline))
   \<and> fst (getPersonalizedRecommendations offline ''tv'' [] live_service) = Inr (JArr (map json_of_ProductRecommendation generateMockRecommendations))
   \<and> fst (makeApiRequest (model_says ''{\"a\": 1}'') (enhanceSearchQuery_prompt ''tv'') live_service) = Inr (JStr ''{\"a\": 1}'')
   \<and> fst (makeApiRequest (model_says ''{\"a\": 1}'') (categorizeProducts_prompt (join '', '' (map title []))) live_service) = Inr (JStr ''{\"a\": 1}'')
   \<and> fst (makeApiRequest (model_says ''{\"a\": 1}'') (analyzeMarketTrends_prompt ''tv'' (join '', '' (map price []))) live_service) = Inr (JStr ''{\"a\": 1}'')
   \<and> fst (makeApiRequest (model_says ''{\"a\": 1}'') (getPersonalizedRecommendations_prompt ''tv'' (join '', '' [])) live_service) = Inr (JStr ''{\"a\": 1}'')
   \<and> fst (enhanceSearchQuery (model_says ''{\"a\": 1}'') ''tv'' live_service) = Inr (JObj [(''a'', JNum 1)])
   \<and> fst (categorizeProducts (model_says ''{\"a\": 1}'') [] live_service) = Inr (JObj [(''a'', JNum 1)])
   \<and> fst (analyzeMarketTrends (model_says ''{\"a\": 1}'') ''tv'' [] live_service) = Inr (JObj [(''a'', JNum 1)])
   \<and> fst (getPersonalizedRecommendations (model_says ''{\"a\": 1}'') ''tv'' [] live_service) = Inr (JObj [(''a'', JNum 1)])
   \<and> fst (makeApiRequest (model_says ''I cannot help with that.'') (enhanceSearchQuery_prompt ''tv'') live_service) = Inr (JStr ''I cannot help with that.'')
   \<and> fst (makeApiRequest (model_says ''I cannot help with that.'') (categorizeProducts_prompt (join '', '' (map title []))) live_service) = Inr (JStr ''I cannot help with that.'')
   \<and> fst (makeApiRequest (model_says ''I cannot help with that.'') (analyzeMarketTrends_prompt ''tv'' (join '', '' (map price []))) live_service) = Inr (JStr ''I cannot help with that.'')
   \<and> fst (makeApiRequest (model_says ''I cannot help with that.'') (getPersonalizedRecommendations_prompt ''tv'' (join '', '' [])) live_service) = Inr (JStr ''I cannot help with that.'')
   \<and> fst (enhanceSearchQuery (model_says ''I cannot help with that.'') ''tv'' live_service) = Inr (json_of_SmartSearchResult (generateMockSmartSearchResult (model_says ''I cannot help with that.'') ''tv''))
   \<and> fst (categorizeProducts (model_says ''I cannot help with that.'') [] live_service) = Inr (JArr (map json_of_ProductCategory generateMockCategories))
   \<and> fst (analyzeMarketTrends (model_says ''I cannot help with that.'') ''tv'' [] live_service) = Inr (json_of_MarketAnalysis (generateMockMarketAnalysis (model_says ''I cannot help with that.'')))
   \<and> fst (getPersonalizedRecommendations (model_says ''I cannot help with that.'') ''tv'' [] live_service) = Inr (JArr (map json_of_ProductRecommendation generateMockRecommendations))
   \<and> fst (enhanceSearchQuery model_returns_object ''tv'' live_service) = Inr (JObj [(''enhancedQuery'', JStr ''tv deals'')])"
proof -
  have dev: "\<not> envPROD development" "\<not> envPROD model_returns_object"
    by (simp_all add: development_def model_returns_object_def)
  have says: "\<not> envPROD (model_says out)" for out
    by (simp add: model_says_def development_def)
  have truthy_yes: "truthy (Some (JObj [(''a'', JNum 1)]))" and falsy_no: "\<not> truthy (Some JNull)"
    by simp_all
  have mock:
    "useMockData mock_service"
    by (simp add: mock_service_def)
  have live:
    "\<not> useMockData live_service"
    by (simp add: live_service_def)
  have off:
    "\<not> envPROD offline"
    "\<not> onLine offline"
    by (simp_all add: offline_def development_def)
  have yes:
    "safeJsonParse_value (model_says ''{\"a\": 1}'') (JStr ''{\"a\": 1}'') = JObj [(''a'', JNum 1)]"
    by code_simp
  have no:
    "safeJsonParse_value (model_says ''I cannot help with that.'') (JStr ''I cannot help with that.'') = JNull"
    by code_simp
  have obj:
    "fst (makeApiRequest model_returns_object (enhanceSearchQuery_prompt ''tv'') live_service) = Inr (JObj [(''enhancedQuery'', JStr ''tv deals'')])"
    by code_simp
  have marked:
    "isMockResult (JObj [(''enhancedQuery'', JStr ''tv deals'')]) = Inr True"
    by (simp add: isMockResult_def)
  have in_mock_mode:
    "fst (enhanceSearchQuery development ''tv'' mock_service) = Inr (json_of_SmartSearchResult (generateMockSmartSearchResult development ''tv''))"
    "fst (categorizeProducts development [] mock_service) = Inr (JArr (map json_of_ProductCategory generateMockCategories))"
    "fst (analyzeMarketTrends development ''tv'' [] mock_service) = Inr (json_of_MarketAnalysis (generateMockMarketAnalysis development))"
    "fst (getPersonalizedRecommendations development ''tv'' [] mock_service) = Inr (JArr (map json_of_ProductRecommendation generateMockRecommendations))"
    using facade_returns_mock_or_recovered
        [where e = "development"
           and s = "mock_service"
           and query = "''tv''"
           and products = "[]"
           and history = "[]"]
      mock
    by simp_all
  have request_offline:
    "fst (makeApiRequest offline (enhanceSearchQuery_prompt ''tv'') live_service) = Inl (JsError ''Error'' ''No internet connection. Please check your network.'')"
    "fst (makeApiRequest offline (categorizeProducts_prompt (join '', '' (map title []))) live_service) = Inl (JsError ''Error'' ''No internet connection. Please check your network.'')"
    "fst (makeApiRequest offline (analyzeMarketTrends_prompt ''tv'' (join '', '' (map price []))) live_service) = Inl (JsError ''Error'' ''No internet connection. Please check your network.'')"
    "fst (makeApiRequest offline (getPersonalizedRecommendations_prompt ''tv'' (join '', '' [])) live_service) = Inl (JsError ''Error'' ''No internet connection. Please check your network.'')"
    using offline_request [OF off(1) live off(2)] by simp_all
  have when_offline:
    "fst (enhanceSearchQuery offline ''tv'' live_service) = Inr (json_of_SmartSearchResult (generateMockSmartSearchResult offline ''tv''))"
    "fst (categorizeProducts offline [] live_service) = Inr (JArr (map json_of_ProductCategory generateMockCategories))"
    "fst (analyzeMarketTrends offline ''tv'' [] live_service) = Inr (json_of_MarketAnalysis (generateMockMarketAnalysis offline))"
    "fst (getPersonalizedRecommendations offline ''tv'' [] live_service) = Inr (JArr (map json_of_ProductRecommendation generateMockRecommendations))"
    using facade_returns_mock_or_recovered
        [where e = "offline"
           and s = "live_service"
           and query = "''tv''"
           and products = "[]"
           and history = "[]"
           and err = "JsError ''Error'' ''No internet connection. Please check your network.''"
           and s' = "live_service"]
      offline_request [OF off(1) live off(2)] off live
    by simp_all
  have request_recovered:
    "fst (makeApiRequest (model_says ''{\"a\": 1}'') (enhanceSearchQuery_prompt ''tv'') live_service) = Inr (JStr ''{\"a\": 1}'')"
    "fst (makeApiRequest (model_says ''{\"a\": 1}'') (categorizeProducts_prompt (join '', '' (map title []))) live_service) = Inr (JStr ''{\"a\": 1}'')"
    "fst (makeApiRequest (model_says ''{\"a\": 1}'') (analyzeMarketTrends_prompt ''tv'' (join '', '' (map price []))) live_service) = Inr (JStr ''{\"a\": 1}'')"
    "fst (makeApiRequest (model_says ''{\"a\": 1}'') (getPersonalizedRecommendations_prompt ''tv'' (join '', '' [])) live_service) = Inr (JStr ''{\"a\": 1}'')"
    using model_says_request [OF live, of "''{\"a\": 1}''"] by simp_all
  have recovered_enhanceSearchQuery:
    "fst (enhanceSearchQuery (model_says ''{\"a\": 1}'') ''tv'' live_service) = Inr (JObj [(''a'', JNum 1)])"
    using facade_returns_mock_or_recovered
        [where e = "model_says ''{\"a\": 1}''"
           and s = "live_service"
           and query = "''tv''"
           and products = "[]"
           and history = "[]"
           and s' = "live_service\<lparr>fetchLog := fetchLog live_service @ [(endpoints ! 0 @ ''?key='' @ apiKey live_service, enhanceSearchQuery_prompt ''tv'')]\<rparr>"
           and response = "JStr ''{\"a\": 1}''"]
      model_says_request [OF live, of "''{\"a\": 1}''" "enhanceSearchQuery_prompt ''tv''"] says [of "''{\"a\": 1}''"] live yes truthy_yes
    by (simp add: isMockResult_def)
  have recovered_categorizeProducts:
    "fst (categorizeProducts (model_says ''{\"a\": 1}'') [] live_service) = Inr (JObj [(''a'', JNum 1)])"
    using facade_returns_mock_or_recovered
        [where e = "model_says ''{\"a\": 1}''"
           and s = "live_service"
           and query = "''tv''"
           and products = "[]"
           and history = "[]"
           and s' = "live_service\<lparr>fetchLog := fetchLog live_service @ [(endpoints ! 0 @ ''?key='' @ apiKey live_service, categorizeProducts_prompt (join '', '' (map title [])))]\<rparr>"
           and response = "JStr ''{\"a\": 1}''"]
      model_says_request [OF live, of "''{\"a\": 1}''" "categorizeProducts_prompt (join '', '' (map title []))"] says [of "''{\"a\": 1}''"] live yes truthy_yes
    by (simp add: isMockResult_def)
  have recovered_analyzeMarketTrends:
    "fst (analyzeMarketTrends (model_says ''{\"a\": 1}'') ''tv'' [] live_service) = Inr (JObj [(''a'', JNum 1)])"
    using facade_returns_mock_or_recovered
        [where e = "model_says ''{\"a\": 1}''"
           and s = "live_service"
           and query = "''tv''"
           and products = "[]"
           and history = "[]"
           and s' = "live_service\<lparr>fetchLog := fetchLog live_service @ [(endpoints ! 0 @ ''?key='' @ apiKey live_service, analyzeMarketTrends_prompt ''tv'' (join '', '' (map price [])))]\<rparr>"
           and response = "JStr ''{\"a\": 1}''"]
      model_says_request [OF live, of "''{\"a\": 1}''" "analyzeMarketTrends_prompt ''tv'' (join '', '' (map price []))"] says [of "''{\"a\": 1}''"] live yes truthy_yes
    by (simp add: isMockResult_def)
  have recovered_getPersonalizedRecommendations:
    "fst (getPersonalizedRecommendations (model_says ''{\"a\": 1}'') ''tv'' [] live_service) = Inr (JObj [(''a'', JNum 1)])"
    using facade_returns_mock_or_recovered
        [where e = "model_says ''{\"a\": 1}''"
           and s = "live_service"
           and query = "''tv''"
           and products = "[]"
           and history = "[]"
           and s' = "live_service\<lparr>fetchLog := fetchLog live_service @ [(endpoints ! 0 @ ''?key='' @ apiKey live_service, getPersonalizedRecommendations_prompt ''tv'' (join '', '' []))]\<rparr>"
           and response = "JStr ''{\"a\": 1}''"]
      model_says_request [OF live, of "''{\"a\": 1}''" "getPersonalizedRecommendations_prompt ''tv'' (join '', '' [])"] says [of "''{\"a\": 1}''"] live yes truthy_yes
    by (simp add: isMockResult_def)
  have request_unparsable:
    "fst (makeApiRequest (model_says ''I cannot help with that.'') (enhanceSearchQuery_prompt ''tv'') live_service) = Inr (JStr ''I cannot help with that.'')"
    "fst (makeApiRequest (model_says ''I cannot help with that.'') (categorizeProducts_prompt (join '', '' (map title []))) live_service) = Inr (JStr ''I cannot help with that.'')"
    "fst (makeApiRequest (model_says ''I cannot help with that.'') (analyzeMarketTrends_prompt ''tv'' (join '', '' (map price []))) live_service) = Inr (JStr ''I cannot help with that.'')"
    "fst (makeApiRequest (model_says ''I cannot help with that.'') (getPersonalizedRecommendations_prompt ''tv'' (join '', '' [])) live_service) = Inr (JStr ''I cannot help with that.'')"
    using model_says_request [OF live, of "''I cannot help with that.''"] by simp_all
  have unparsable_enhanceSearchQuery:
    "fst (enhanceSearchQuery (model_says ''I cannot help with that.'') ''tv'' live_service) = Inr (json_of_SmartSearchResult (generateMockSmartSearchResult (model_says ''I cannot help with that.'') ''tv''))"
    using facade_returns_mock_or_recovered
        [where e = "model_says ''I cannot help with that.''"
           and s = "live_service"
           and query = "''tv''"
           and products = "[]"
           and history = "[]"
           and s' = "live_service\<lparr>fetchLog := fetchLog live_service @ [(endpoints ! 0 @ ''?key='' @ apiKey live_service, enhanceSearchQuery_prompt ''tv'')]\<rparr>"
           and response = "JStr ''I cannot help with that.''"]
      model_says_request [OF live, of "''I cannot help with that.''" "enhanceSearchQuery_prompt ''tv''"] says [of "''I cannot help with that.''"] live no falsy_no
    by (simp add: isMockResult_def)
  have unparsable_categorizeProducts:
    "fst (categorizeProducts (model_says ''I cannot help with that.'') [] live_service) = Inr (JArr (map json_of_ProductCategory generateMockCategories))"
    using facade_returns_mock_or_recovered
        [where e = "model_says ''I cannot help with that.''"
           and s = "live_service"
           and query = "''tv''"
           and products = "[]"
           and history = "[]"
           and s' = "live_service\<lparr>fetchLog := fetchLog live_service @ [(endpoints ! 0 @ ''?key='' @ apiKey live_service, categorizeProducts_prompt (join '', '' (map title [])))]\<rparr>"
           and response = "JStr ''I cannot help with that.''"]
      model_says_request [OF live, of "''I cannot help with that.''" "categorizeProducts_prompt (join '', '' (map title []))"] says [of "''I cannot help with that.''"] live no falsy_no
    by (simp add: isMockResult_def)
  have unparsable_analyzeMarketTrends:
    "fst (analyzeMarketTrends (model_says ''I cannot help with that.'') ''tv'' [] live_service) = Inr (json_of_MarketAnalysis (generateMockMarketAnalysis (model_says ''I cannot help with that.'')))"
    using facade_returns_mock_or_recovered
        [where e = "model_says ''I cannot help with that.''"
           and s = "live_service"
           and query = "''tv''"
           and products = "[]"
           and history = "[]"
           and s' = "live_service\<lparr>fetchLog := fetchLog live_service @ [(endpoints ! 0 @ ''?key='' @ apiKey live_service, analyzeMarketTrends_prompt ''tv'' (join '', '' (map price [])))]\<rparr>"
           and response = "JStr ''I cannot help with that.''"]
      model_says_request [OF live, of "''I cannot help with that.''" "analyzeMarketTrends_prompt ''tv'' (join '', '' (map price []))"] says [of "''I cannot help with that.''"] live no falsy_no
    by (simp add: isMockResult_def)
  have unparsable_getPersonalizedRecommendations:
    "fst (getPersonalizedRecommendations (model_says ''I cannot help with that.'') ''tv'' [] live_service) = Inr (JArr (map json_of_ProductRecommendation generateMockRecommendations))"
    using facade_returns_mock_or_recovered
        [where e = "model_says ''I cannot help with that.''"
           and s = "live_service"
           and query = "''tv''"
           and products = "[]"
           and history = "[]"
           and s' = "live_service\<lparr>fetchLog := fetchLog live_service @ [(endpoints ! 0 @ ''?key='' @ apiKey live_service, getPersonalizedRecommendations_prompt ''tv'' (join '', '' []))]\<rparr>"
           and response = "JStr ''I cannot help with that.''"]
      model_says_request [OF live, of "''I cannot help with that.''" "getPersonalizedRecommendations_prompt ''tv'' (join '', '' [])"] says [of "''I cannot help with that.''"] live no falsy_no
    by (simp add: isMockResult_def)
  have passed_on:
    "fst (enhanceSearchQuery model_returns_object ''tv'' live_service) = Inr (JObj [(''enhancedQuery'', JStr ''tv deals'')])"
    using facade_returns_mock_or_recovered
        [where e = "model_returns_object"
           and s = "live_service"
           and query = "''tv''"
           and products = "[]"
           and history = "[]"
           and s' = "snd (makeApiRequest model_returns_object (enhanceSearchQuery_prompt ''tv'') live_service)"
           and response = "JObj [(''enhancedQuery'', JStr ''tv deals'')]"]
      obj marked dev live
    by (simp add: prod_eq_iff)
  show ?thesis
    using mock live off yes no obj marked in_mock_mode request_offline when_offline request_recovered recovered_enhanceSearchQuery recovered_categorizeProducts recovered_analyzeMarketTrends recovered_getPersonalizedRecommendations request_unparsable unparsable_enhanceSearchQuery unparsable_categorizeProducts unparsable_analyzeMarketTrends unparsable_getPersonalizedRecommendations passed_on
    by (simp only: simp_thms)
qed

text \<open>
  The claim as written fails: the recovered value is returned without a check of its
  shape. A model output \<open>{"a": 1}\<close> is what \<open>enhanceSearchQuery\<close> returns, and a model
  output \<open>42\<close> is what \<open>categorizeProducts\<close> returns.
\<close>

theorem facade_returns_unvalidated_output:
  "fst (enhanceSearchQuery (model_says ''{\"a\": 1}'') ''iphone'' live_service)
     = Inr (JObj [(''a'', JNum 1)])
   \<and> \<not> isSmartSearchResult (JObj [(''a'', JNum 1)])
   \<and> fst (categorizeProducts (model_says ''42'') [] live_service) = Inr (JNum 42)
   \<and> \<not> isArrayOf isProductCategory (Some (JNum 42))"
  by code_simp

end
